theory Spec2Isabelle
  imports Complex_Main
begin

section \<open>Python values and errors\<close>

text \<open>Exceptions of the Python source, as values. A function that can raise returns
  \<open>py_error + 'a\<close>, with \<open>Inl\<close> for the exception.\<close>

datatype py_error = UnboundLocalError | ValueError | TypeError | ZeroDivisionError
  | IndexError | AttributeError | EOFError | SystemExit

definition py_bind :: "py_error + 'a \<Rightarrow> ('a \<Rightarrow> py_error + 'b) \<Rightarrow> py_error + 'b" where
  "py_bind m f = (case m of Inl e \<Rightarrow> Inl e | Inr x \<Rightarrow> f x)"

text \<open>The values a settings dictionary holds. Floats are idealised as reals; \<open>PSeq\<close> is a
  tuple or list; \<open>PObj\<close> is an opaque non-empty object (the \<open>Polygon\<close> of
  \<open>AllowedSpaceForArcs\<close>).\<close>

datatype pyval = PNone | PBool bool | PInt int | PFloat real | PStr string
  | PSeq "pyval list" | PObj

type_synonym settings = "string \<rightharpoonup> pyval"

text \<open>\<open>d.get(k)\<close>: a missing key reads as \<open>None\<close>.\<close>

definition dict_get :: "settings \<Rightarrow> string \<Rightarrow> pyval" where
  "dict_get d k = (case d k of None \<Rightarrow> PNone | Some v \<Rightarrow> v)"

text \<open>Python truthiness, as used by \<open>if x\<close> and \<open>not x\<close>.\<close>

fun truthy :: "pyval \<Rightarrow> bool" where
  "truthy PNone = False"
| "truthy (PBool b) = b"
| "truthy (PInt i) = (i \<noteq> 0)"
| "truthy (PFloat r) = (r \<noteq> 0)"
| "truthy (PStr s) = (s \<noteq> [])"
| "truthy (PSeq vs) = (vs \<noteq> [])"
| "truthy PObj = True"

text \<open>The numeric reading of a value; \<open>None\<close> where Python's arithmetic and ordering
  against a number raise \<open>TypeError\<close>.\<close>

fun num_of :: "pyval \<Rightarrow> real option" where
  "num_of (PBool b) = Some (if b then 1 else 0)"
| "num_of (PInt i) = Some (of_int i)"
| "num_of (PFloat r) = Some r"
| "num_of _ = None"

definition py_num :: "pyval \<Rightarrow> py_error + real" where
  "py_num v = (case num_of v of None \<Rightarrow> Inl TypeError | Some x \<Rightarrow> Inr x)"

definition py_lt :: "pyval \<Rightarrow> real \<Rightarrow> py_error + bool" where
  "py_lt v c = py_bind (py_num v) (\<lambda>x. Inr (x < c))"

definition py_gt :: "pyval \<Rightarrow> real \<Rightarrow> py_error + bool" where
  "py_gt v c = py_bind (py_num v) (\<lambda>x. Inr (x > c))"

text \<open>\<open>c * v\<close> and \<open>v * c\<close> for a float literal \<open>c\<close>: defined on numbers only.\<close>

definition py_mul_float :: "real \<Rightarrow> pyval \<Rightarrow> py_error + pyval" where
  "py_mul_float c v = py_bind (py_num v) (\<lambda>x. Inr (PFloat (c * x)))"

text \<open>\<open>1 * v\<close> for the int literal 1: numbers keep their value (a bool becomes an int),
  strings and sequences are repeated once, anything else raises.\<close>

fun py_mul_one :: "pyval \<Rightarrow> py_error + pyval" where
  "py_mul_one (PBool b) = Inr (PInt (if b then 1 else 0))"
| "py_mul_one (PInt i) = Inr (PInt i)"
| "py_mul_one (PFloat r) = Inr (PFloat r)"
| "py_mul_one (PStr s) = Inr (PStr s)"
| "py_mul_one (PSeq vs) = Inr (PSeq vs)"
| "py_mul_one PNone = Inl TypeError"
| "py_mul_one PObj = Inl TypeError"

section \<open>Parameters\<close>

text \<open>\<open>AddManualSettingsDict\<close> of \<open>makeFullSettingDict\<close>, in the order of the source. The dict
  literal evaluates its values in order, so the first failing product decides the error;
  \<open>aco\<close>, \<open>aw\<close>, \<open>eaip\<close>, \<open>ehip\<close>, \<open>mdfp\<close> are the computed entries.\<close>

definition AddManualSettingsDict ::
  "pyval \<Rightarrow> pyval \<Rightarrow> pyval \<Rightarrow> pyval \<Rightarrow> pyval \<Rightarrow> pyval \<Rightarrow> (string \<times> pyval) list" where
  "AddManualSettingsDict nozzle aco aw eaip ehip mdfp =
   [(''AllowedArcRetries'', PInt 2),
    (''CheckForAllowedSpace'', PBool False),
    (''AllowedSpaceForArcs'', PObj),
    (''ArcCenterOffset'', aco),
    (''ArcExtrusionMultiplier'', PFloat 1.35),
    (''ArcFanSpeed'', PInt 255),
    (''ArcMinPrintSpeed'', PFloat (0.5 * 60)),
    (''ArcPrintSpeed'', PFloat (1.5 * 60)),
    (''ArcSlowDownBelowThisDuration'', PInt 3),
    (''ArcPointsPerMillimeter'', PInt 10),
    (''ArcTravelFeedRate'', PInt (30 * 60)),
    (''ArcWidth'', aw),
    (''CornerImportanceMultiplier'', PFloat 0.2),
    (''DistanceBetweenPointsOnStartLine'', PFloat 0.1),
    (''ExtendArcDist'', nozzle),
    (''ExtendArcsIntoPerimeter'', eaip),
    (''ExtendHilbertIntoPerimeter'', ehip),
    (''GCodeArcPtMinDist'', PFloat 0.1),
    (''HilbertFillingPercentage'', PInt 100),
    (''HilbertInfillExtrusionMultiplier'', PFloat 1.05),
    (''HilbertTravelEveryNSeconds'', PInt 6),
    (''MinArea'', PInt 0),
    (''MinBridgeLength'', PInt 0),
    (''MinDistanceFromPerimeter'', mdfp),
    (''MinStartArcs'', PInt 2),
    (''Path2Output'', PStr []),
    (''RMax'', PInt 30),
    (''ReplaceInternalBridging'', PBool True),
    (''SafetyBreak_MaxArcNumber'', PInt 2000),
    (''TimeLapseEveryNArcs'', PInt 0),
    (''UseLeastAmountOfCenterPoints'', PBool False),
    (''WarnBelowThisFillingPercentage'', PInt 90),
    (''aboveArcsFanSpeed'', PInt 25),
    (''aboveArcsInfillPrintSpeed'', PInt (10 * 60)),
    (''aboveArcsPerimeterFanSpeed'', PInt 25),
    (''aboveArcsPerimeterPrintSpeed'', PInt (3 * 60)),
    (''applyAboveFanSpeedToWholeLayer'', PBool True),
    (''CoolingSettingDetectionDistance'', PInt 3),
    (''doSpecialCooling'', PBool True),
    (''specialCoolingZdist'', PInt 3),
    (''plotArcsEachStep'', PBool False),
    (''plotArcsFinal'', PBool False),
    (''plotDetectedInfillPoly'', PBool False),
    (''plotDetectedSolidInfillPoly'', PBool False),
    (''plotEachHilbert'', PBool False),
    (''plotStart'', PBool False),
    (''PrintDebugVerification'', PBool False)]"

text \<open>\<open>makeFullSettingDict\<close>: the manual entries are built (which raises on a missing or
  non-numeric \<open>nozzle_diameter\<close> or \<open>extrusion_width\<close>) and then override the parsed
  dictionary (\<open>dict.update\<close>). No key occurs twice in the literal.\<close>

definition makeFullSettingDict :: "settings \<Rightarrow> py_error + settings" where
  "makeFullSettingDict gCodeSettingDict =
     (let nozzle = dict_get gCodeSettingDict ''nozzle_diameter'';
          ew = dict_get gCodeSettingDict ''extrusion_width''
      in py_bind (py_mul_float 1.5 nozzle) (\<lambda>aco.
         py_bind (py_mul_float 0.95 nozzle) (\<lambda>aw.
         py_bind (py_mul_float 0.5 ew) (\<lambda>eaip.
         py_bind (py_mul_one ew) (\<lambda>ehip.
         py_bind (py_mul_one ew) (\<lambda>mdfp.
           Inr (gCodeSettingDict ++
                  map_of (AddManualSettingsDict nozzle aco aw eaip ehip mdfp))))))))"

text \<open>\<open>checkforNecesarrySettings\<close>. The warnings only log; \<open>or\<close> short-circuits, so a later
  comparison is evaluated (and can raise) only if the earlier ones were false.\<close>

definition checkforNecesarrySettings :: "settings \<Rightarrow> py_error + bool" where
  "checkforNecesarrySettings gCodeSettingDict =
     (if \<not> truthy (dict_get gCodeSettingDict ''use_relative_e_distances'') then Inr False
      else
        py_bind (py_lt (dict_get gCodeSettingDict ''extrusion_width'') 0.001) (\<lambda>a.
        py_bind (if a then Inr True
                 else py_lt (dict_get gCodeSettingDict ''perimeter_extrusion_width'') 0.001) (\<lambda>b.
        py_bind (if b then Inr True
                 else py_lt (dict_get gCodeSettingDict ''solid_infill_extrusion_width'') 0.001) (\<lambda>c.
          if c then Inr False
          else if \<not> truthy (dict_get gCodeSettingDict ''overhangs'') then Inr False
          else py_bind (py_gt (dict_get gCodeSettingDict ''bridge_speed'') 5) (\<lambda>_. Inr True)))))"

section \<open>Toolpath tokenizer\<close>

text \<open>Python's \<open>sub in line\<close> on strings: \<open>sub\<close> occurs as a contiguous run of \<open>line\<close>.\<close>

fun str_in :: "string \<Rightarrow> string \<Rightarrow> bool" where
  "str_in sub [] = (sub = [])"
| "str_in sub (c # cs) = (take (length sub) (c # cs) = sub \<or> str_in sub cs)"

text \<open>The loop of \<open>splitGCodeIntoLayers\<close>: the state is \<open>gcode_list\<close> and \<open>buff\<close>.\<close>

fun split_loop :: "string list \<Rightarrow> string list list \<Rightarrow> string list
    \<Rightarrow> string list list \<times> string list" where
  "split_loop [] gcode_list buff = (gcode_list, buff)"
| "split_loop (line # rest) gcode_list buff =
     (if str_in '';LAYER_CHANGE'' line
      then split_loop rest (gcode_list @ [buff]) [line]
      else split_loop rest gcode_list (buff @ [line]))"

text \<open>After the loop the last buffer is appended. The closing \<open>print\<close> reads the loop
  variable \<open>linenumber\<close>, which is unbound when the loop body never ran.\<close>

definition splitGCodeIntoLayers :: "string list \<Rightarrow> py_error + string list list" where
  "splitGCodeIntoLayers gcode =
     (case split_loop gcode [] [] of
        (gcode_list, buff) \<Rightarrow>
          if gcode = [] then Inl UnboundLocalError else Inr (gcode_list @ [buff]))"

section \<open>Layers and the main pass\<close>

text \<open>The attributes of a \<open>Layer\<close> object that \<open>main\<close> itself reads and writes. Polygons are
  values of an abstract type \<open>'p\<close>. The other attributes (features, bridge and solid infill
  polylines, perimeter polygons, spatial indices, \<open>deletelines\<close>, height, fan setting) are
  written and read only by the geometric methods; they live in an opaque store \<open>'aux\<close>
  that those methods thread through.\<close>

record 'p layer =
  lines :: "string list"
  layernumber :: nat
  z :: pyval
  validpolys :: "'p list"
  oldpolys :: "'p list"
  failedArcGenPolys :: "'p list"

text \<open>\<open>Layer.__init__\<close>: \<open>z\<close> starts as \<open>kwargs.get("z", None)\<close>, the polygon lists empty.\<close>

definition Layer :: "string list \<Rightarrow> settings \<Rightarrow> nat \<Rightarrow> 'p layer" where
  "Layer ls kwargs n =
     \<lparr>lines = ls, layernumber = n, z = dict_get kwargs ''z'',
      validpolys = [], oldpolys = [], failedArcGenPolys = []\<rparr>"

text \<open>The collaborators of \<open>main\<close> that stand outside this model: parsing of the settings
  block and of numbers in G-code lines, the console, and the geometry pipeline built on
  the shapely library. Each returns what the corresponding source code computes, or the
  exception it raises.
  \<^item> \<open>readSettingsFromGCode2dict\<close>: the parsed settings (and the detected slicer, in the store);
  \<^item> \<open>stdin_eof\<close>: whether \<open>input()\<close> meets end of file and raises;
  \<^item> \<open>addZ\<close>: the Z height found in a layer's lines, if any;
  \<^item> \<open>addHeight\<close>, \<open>spotFanSetting\<close>: the two other scans of the first loop of \<open>main\<close>;
  \<^item> \<open>detect_overhangs\<close>: \<open>extract_features\<close> to \<open>verifyinfillpolys\<close> for layer \<open>idl\<close>, giving
    the polygons appended to its \<open>validpolys\<close>;
  \<^item> \<open>arcs4poly\<close>: the body of the loop over \<open>layer.validpolys\<close> for one polygon, \<open>None\<close>
    on the two \<open>continue\<close> branches (the polygon goes to \<open>failedArcGenPolys\<close>), else the
    G-code lines of its arcs;
  \<^item> \<open>hilbert\<close>: the special-cooling block; \<open>rewrite\<close>: the lines of the modified layer.\<close>

record ('p, 'aux) collaborators =
  readSettingsFromGCode2dict :: "string list \<Rightarrow> py_error + settings \<times> 'aux"
  stdin_eof :: bool
  addZ :: "string list \<Rightarrow> py_error + real option"
  addHeight :: "settings \<Rightarrow> nat \<Rightarrow> string list \<Rightarrow> 'aux \<Rightarrow> py_error + 'aux"
  spotFanSetting :: "nat \<Rightarrow> string list \<Rightarrow> 'aux \<Rightarrow> py_error + 'aux"
  detect_overhangs :: "settings \<Rightarrow> nat \<Rightarrow> 'p layer list \<Rightarrow> 'aux \<Rightarrow> py_error + 'p list \<times> 'aux"
  arcs4poly :: "settings \<Rightarrow> nat \<Rightarrow> 'p layer list \<Rightarrow> 'p \<Rightarrow> 'aux
                  \<Rightarrow> py_error + string list option \<times> 'aux"
  hilbert :: "settings \<Rightarrow> nat \<Rightarrow> 'p layer list \<Rightarrow> 'aux \<Rightarrow> py_error + 'aux"
  rewrite :: "settings \<Rightarrow> nat \<Rightarrow> 'p layer list \<Rightarrow> string list \<Rightarrow> bool \<Rightarrow> 'aux
                \<Rightarrow> py_error + string list \<times> 'aux"

text \<open>The first loop of \<open>main\<close>: one \<open>Layer\<close> object per element of the split.\<close>

fun build_layers :: "('p, 'aux) collaborators \<Rightarrow> settings \<Rightarrow> nat \<Rightarrow> string list list
    \<Rightarrow> 'p layer list \<Rightarrow> 'aux \<Rightarrow> py_error + 'p layer list \<times> 'aux" where
  "build_layers env parameters idl [] layerobjs aux = Inr (layerobjs, aux)"
| "build_layers env parameters idl (layerlines # rest) layerobjs aux =
     (case addZ env layerlines of Inl e \<Rightarrow> Inl e | Inr found \<Rightarrow>
      case addHeight env parameters idl layerlines aux of Inl e \<Rightarrow> Inl e | Inr aux1 \<Rightarrow>
      case spotFanSetting env idl layerlines aux1 of Inl e \<Rightarrow> Inl e | Inr aux2 \<Rightarrow>
        build_layers env parameters (Suc idl) rest
          (layerobjs @ [(Layer layerlines parameters idl)
             \<lparr>z := (case found of None \<Rightarrow> dict_get parameters ''z'' | Some h \<Rightarrow> PFloat h)\<rparr>])
          aux2)"

text \<open>The \<open>while\<close> loop that pushes the valid polygons of layer \<open>idl\<close> onto the \<open>oldpolys\<close> of
  the following layers. \<open>currZ < maxZ\<close> is tested first and raises on a layer without Z.\<close>

function propagate :: "real \<Rightarrow> 'p list \<Rightarrow> nat \<Rightarrow> nat \<Rightarrow> pyval \<Rightarrow> 'p layer list
    \<Rightarrow> py_error + 'p layer list" where
  "propagate maxZ polys idl idoffset currZ layerobjs =
     (case py_lt currZ maxZ of Inl e \<Rightarrow> Inl e
      | Inr below \<Rightarrow>
          if below \<and> int (idl + idoffset) \<le> int (length layerobjs) - 1
          then propagate maxZ polys idl (idoffset + 1) (z (layerobjs ! (idl + idoffset)))
                 (layerobjs[idl + idoffset := (layerobjs ! (idl + idoffset))
                    \<lparr>oldpolys := oldpolys (layerobjs ! (idl + idoffset)) @ polys\<rparr>])
          else Inr layerobjs)"
  by pat_completeness auto
termination
  by (relation "measure (\<lambda>(maxZ, polys, idl, idoffset, currZ, layerobjs).
        length layerobjs - (idl + idoffset))") auto

declare propagate.simps [simp del]

record ('p, 'aux) mstate =
  layerobjs :: "'p layer list"
  gcodeWasModified :: bool
  numOverhangs :: nat
  store :: 'aux

text \<open>The loop over \<open>layer.validpolys\<close>; the accumulator carries \<open>arcOverhangGCode\<close> and
  \<open>modify\<close>.\<close>

fun poly_loop :: "('p, 'aux) collaborators \<Rightarrow> settings \<Rightarrow> nat \<Rightarrow> 'p list
    \<Rightarrow> ('p, 'aux) mstate \<times> string list \<times> bool
    \<Rightarrow> py_error + ('p, 'aux) mstate \<times> string list \<times> bool" where
  "poly_loop env parameters idl [] acc = Inr acc"
| "poly_loop env parameters idl (poly # polys) (st, arcOverhangGCode, modify) =
     (case arcs4poly env parameters idl (layerobjs st) poly (store st) of Inl e \<Rightarrow> Inl e
      | Inr (None, aux) \<Rightarrow>
          poly_loop env parameters idl polys
            (st\<lparr>layerobjs := (layerobjs st)[idl := (layerobjs st ! idl)
                   \<lparr>failedArcGenPolys := failedArcGenPolys (layerobjs st ! idl) @ [poly]\<rparr>],
                store := aux\<rparr>,
             arcOverhangGCode, modify)
      | Inr (Some arcGCode, aux) \<Rightarrow>
          poly_loop env parameters idl polys
            (st\<lparr>gcodeWasModified := True, store := aux\<rparr>, arcOverhangGCode @ arcGCode, True))"

text \<open>The block under \<open>if layer.validpolys\<close>.\<close>

definition arc_generation :: "('p, 'aux) collaborators \<Rightarrow> settings \<Rightarrow> nat \<Rightarrow> ('p, 'aux) mstate
    \<Rightarrow> py_error + ('p, 'aux) mstate \<times> string list \<times> bool" where
  "arc_generation env parameters idl st =
     (let layer = layerobjs st ! idl in
      py_bind (py_num (z layer)) (\<lambda>layer_z.
      py_bind (py_num (dict_get parameters ''specialCoolingZdist'')) (\<lambda>dist.
      py_bind (propagate (layer_z + dist) (validpolys layer) idl 1 (z layer) (layerobjs st))
        (\<lambda>objs.
          poly_loop env parameters idl (validpolys layer)
            (st\<lparr>layerobjs := objs, numOverhangs := numOverhangs st + 1\<rparr>, [], False)))))"

text \<open>One iteration of the main loop. Layers 0 and 1 are skipped by \<open>continue\<close>.\<close>

definition layer_iteration :: "('p, 'aux) collaborators \<Rightarrow> settings \<Rightarrow> nat \<Rightarrow> ('p, 'aux) mstate
    \<Rightarrow> py_error + ('p, 'aux) mstate" where
  "layer_iteration env parameters idl st =
     (if idl < 2 then Inr st
      else
        py_bind (detect_overhangs env parameters idl (layerobjs st) (store st)) (\<lambda>(found, aux1).
        let layer = layerobjs st ! idl;
            st1 = st\<lparr>layerobjs := (layerobjs st)[idl := layer
                       \<lparr>validpolys := validpolys layer @ found\<rparr>],
                     store := aux1\<rparr>
        in
        py_bind (if validpolys (layerobjs st1 ! idl) \<noteq> []
                 then arc_generation env parameters idl st1
                 else Inr (st1, [], False)) (\<lambda>(st2, arcOverhangGCode, modify).
        py_bind (if truthy (dict_get parameters ''doSpecialCooling'')
                    \<and> length (oldpolys (layerobjs st2 ! idl)) > 0 \<and> gcodeWasModified st2
                 then py_bind (hilbert env parameters idl (layerobjs st2) (store st2))
                        (\<lambda>aux3. Inr (st2\<lparr>store := aux3\<rparr>, True))
                 else Inr (st2, modify)) (\<lambda>(st3, modify3).
          if modify3
          then py_bind (rewrite env parameters idl (layerobjs st3) arcOverhangGCode
                          (gcodeWasModified st3) (store st3)) (\<lambda>(modifiedlines, aux4).
                 Inr (st3\<lparr>layerobjs := (layerobjs st3)[idl :=
                            (Layer [] parameters idl)\<lparr>lines := modifiedlines\<rparr>],
                          store := aux4\<rparr>))
          else Inr st3))))"

fun main_loop :: "('p, 'aux) collaborators \<Rightarrow> settings \<Rightarrow> nat list \<Rightarrow> ('p, 'aux) mstate
    \<Rightarrow> py_error + ('p, 'aux) mstate" where
  "main_loop env parameters [] st = Inr st"
| "main_loop env parameters (idl # idls) st =
     (case layer_iteration env parameters idl st of Inl e \<Rightarrow> Inl e
      | Inr st' \<Rightarrow> main_loop env parameters idls st')"

text \<open>\<open>main\<close> up to the end of the main loop: the parameters and the final state.\<close>

definition main_state :: "('p, 'aux) collaborators \<Rightarrow> string list
    \<Rightarrow> py_error + settings \<times> ('p, 'aux) mstate" where
  "main_state env gCodeLines =
     py_bind (readSettingsFromGCode2dict env gCodeLines) (\<lambda>(gCodeSettingDict, aux0).
     py_bind (makeFullSettingDict gCodeSettingDict) (\<lambda>parameters.
     py_bind (checkforNecesarrySettings parameters) (\<lambda>ok.
       if \<not> ok then Inl (if stdin_eof env then EOFError else ValueError)
       else
         py_bind (splitGCodeIntoLayers gCodeLines) (\<lambda>layers.
         py_bind (build_layers env parameters 0 layers [] aux0) (\<lambda>(objs, aux).
         py_bind (main_loop env parameters [0..<length objs]
                    \<lparr>layerobjs = objs, gcodeWasModified = False, numOverhangs = 0,
                     store = aux\<rparr>) (\<lambda>st.
           Inr (parameters, st)))))))"

text \<open>The file system maps a path to the list of strings read by \<open>readlines\<close> or written by
  \<open>writelines\<close>. \<open>main\<close> writes only under \<open>if gcodeWasModified\<close>, to \<open>Path2Output\<close> if that
  is set and to the input path otherwise.\<close>

type_synonym files = "string \<rightharpoonup> string list"

definition main :: "('p, 'aux) collaborators \<Rightarrow> string list \<Rightarrow> string \<Rightarrow> files
    \<Rightarrow> (py_error + unit) \<times> files" where
  "main env gCodeLines path2GCode fs =
     (case main_state env gCodeLines of Inl e \<Rightarrow> (Inl e, fs)
      | Inr (parameters, st) \<Rightarrow>
          if gcodeWasModified st then
            (if truthy (dict_get parameters ''Path2Output'') then
               (case dict_get parameters ''Path2Output'' of
                  PStr out \<Rightarrow> (Inr (), fs(out \<mapsto> concat (map lines (layerobjs st))))
                | _ \<Rightarrow> (Inl TypeError, fs))
             else (Inr (), fs(path2GCode \<mapsto> concat (map lines (layerobjs st)))))
          else (Inr (), fs))"


section \<open>Sample inputs\<close>

text \<open>A file of four layers followed by the settings block (lines shown without their
  terminators), with relative extrusion switched on or off in the block.\<close>

definition demo_layer0 :: "string list" where
  "demo_layer0 = [''; generated by PrusaSlicer'', ''M83'']"

definition demo_layer1 :: "string list" where
  "demo_layer1 = ['';LAYER_CHANGE'', ''G1 Z0.2'', '';TYPE:External perimeter'', ''G1 X9 Y0 E1'']"

definition demo_layer2 :: "string list" where
  "demo_layer2 = ['';LAYER_CHANGE'', ''G1 Z0.4'', '';TYPE:External perimeter'', ''G1 X9 Y1 E1'']"

definition demo_layer3 :: "string list" where
  "demo_layer3 = ['';LAYER_CHANGE'', ''G1 Z0.6'', '';TYPE:Bridge infill'', ''G1 X2 Y2 E1'']"

definition demo_config :: "bool \<Rightarrow> string list" where
  "demo_config relative =
     [''; prusaslicer_config = begin'',
      ''; avoid_crossing_perimeters = 1'',
      ''; bridge_speed = 5'',
      ''; extrusion_width = 0.45'',
      ''; nozzle_diameter = 0.4'',
      ''; overhangs = 1'',
      ''; perimeter_extrusion_width = 0.45'',
      ''; solid_infill_extrusion_width = 0.45'',
      (if relative then ''; use_relative_e_distances = 1''
       else ''; use_relative_e_distances = 0''),
      ''; prusaslicer_config = end'']"

definition demo_gcode :: "bool \<Rightarrow> string list" where
  "demo_gcode relative =
     demo_layer0 @ demo_layer1 @ demo_layer2 @ demo_layer3 @ demo_config relative"

text \<open>The settings dictionary that the block gives, on top of the two fallback values.\<close>

definition demo_settings :: "bool \<Rightarrow> settings" where
  "demo_settings relative = map_of
     [(''Fallback_nozzle_diameter'', PFloat 0.4), (''Fallback_filament_diameter'', PFloat 1.75),
      (''avoid_crossing_perimeters'', PInt 1), (''bridge_speed'', PInt 5),
      (''extrusion_width'', PFloat 0.45), (''nozzle_diameter'', PFloat 0.4),
      (''overhangs'', PInt 1), (''perimeter_extrusion_width'', PFloat 0.45),
      (''solid_infill_extrusion_width'', PFloat 0.45),
      (''use_relative_e_distances'', PInt (if relative then 1 else 0))]"

text \<open>Collaborators for this file: the settings are those above, the Z heights are read off
  the three \<open>G1 Z\<close> lines, one overhang polygon is found on layer 3 and converted to a
  single arc move, and the rewriting puts the arc block in place of the bridge infill.
  \<open>quiet_env\<close> is the same with a detection that finds nothing.\<close>

definition demo_env :: "(nat, unit) collaborators" where
  "demo_env =
     \<lparr>readSettingsFromGCode2dict =
        (\<lambda>gcode. Inr (demo_settings (''; use_relative_e_distances = 1'' \<in> set gcode), ())),
      stdin_eof = False,
      addZ = (\<lambda>ls. Inr (if ''G1 Z0.2'' \<in> set ls then Some 0.2
                         else if ''G1 Z0.4'' \<in> set ls then Some 0.4
                         else if ''G1 Z0.6'' \<in> set ls then Some 0.6 else None)),
      addHeight = (\<lambda>P idl ls aux. Inr aux),
      spotFanSetting = (\<lambda>idl ls aux. Inr aux),
      detect_overhangs = (\<lambda>P idl objs aux. Inr (if idl = 3 then [7] else [], aux)),
      arcs4poly = (\<lambda>P idl objs poly aux. Inr (Some [''G1 X2 Y2 E0.1''], aux)),
      hilbert = (\<lambda>P idl objs aux. Inr aux),
      rewrite = (\<lambda>P idl objs arcOverhangGCode modified aux.
                   Inr (take 2 (lines (objs ! idl)) @ ['';TYPE:Arc infill''] @ arcOverhangGCode
                          @ drop 4 (lines (objs ! idl)), aux))\<rparr>"


text \<open>Twelve layers 0.4 mm apart, the first at Z 0.2; layer 2, at Z 1.0, has a valid polygon.\<close>

definition coarse_layers :: "nat layer list" where
  "coarse_layers = map (\<lambda>k. \<lparr>lines = [], layernumber = k, z = PFloat (0.2 + 0.4 * real k),
      validpolys = (if k = 2 then [7] else []), oldpolys = [], failedArcGenPolys = []\<rparr>)
    [0, 1, 2, 3, 4, 5, 6, 7, 8, 9, 10, 11]"

section \<open>Bridge infill objects\<close>

text \<open>\<open>class BridgeInfill\<close>. Python evaluates a default argument once, when the \<open>def\<close>
  statement runs: \<open>default_id\<close> is the value \<open>randint(1, int(1e10))\<close> returned at that
  moment, fixed for the rest of the process. \<open>given\<close> is the explicit \<open>id\<close> argument, if
  any.\<close>

text \<open>The attributes \<open>pts\<close>, \<open>deleteLater\<close> and \<open>id\<close> of the object.\<close>

type_synonym point = "real \<times> real"

record bridge_infill =
  bi_pts :: "point list"
  bi_deleteLater :: bool
  bi_id :: int

definition BridgeInfill :: "int \<Rightarrow> point list \<Rightarrow> int option \<Rightarrow> bridge_infill" where
  "BridgeInfill default_id infillpts given =
     \<lparr>bi_pts = infillpts, bi_deleteLater = False,
      bi_id = (case given of None \<Rightarrow> default_id | Some i \<Rightarrow> i)\<rparr>"

text \<open>\<open>Layer.spotBridgeInfill\<close> appends one object per part found by \<open>spotFeaturePoints\<close>
  (here the argument \<open>parts\<close>), each built without an id;
  \<open>makePolysFromBridgeInfill\<close> records the ids in \<open>associatedIDs\<close>.\<close>

definition spotBridgeInfill :: "int \<Rightarrow> point list list \<Rightarrow> bridge_infill list
    \<Rightarrow> bridge_infill list" where
  "spotBridgeInfill default_id parts binfills =
     binfills @ map (\<lambda>infillpts. BridgeInfill default_id infillpts None) parts"

definition associatedIDs :: "bridge_infill list \<Rightarrow> int list" where
  "associatedIDs binfills = map bi_id binfills"

section \<open>Plane geometry on reals\<close>

text \<open>Coordinates are floats in the source and reals here. \<open>distance\<close> is shapely's
  distance between two points, \<open>ls_length\<close> the length of a line string given by its
  coordinates.\<close>

definition distance :: "point \<Rightarrow> point \<Rightarrow> real" where
  "distance p q = sqrt ((fst p - fst q)\<^sup>2 + (snd p - snd q)\<^sup>2)"

fun ls_length :: "point list \<Rightarrow> real" where
  "ls_length (p # q # ps) = distance p q + ls_length (q # ps)"
| "ls_length _ = 0"

definition midpoint :: "point \<Rightarrow> point \<Rightarrow> point" where
  "midpoint p1 p2 = ((fst p1 + fst p2) / 2, (snd p1 + snd p2) / 2)"

text \<open>\<open>math.atan2\<close>, \<open>math.degrees\<close>, \<open>math.radians\<close>, \<open>math.hypot\<close>.\<close>

definition atan2 :: "real \<Rightarrow> real \<Rightarrow> real" where
  "atan2 y x =
     (if x > 0 then arctan (y / x)
      else if x < 0 \<and> y \<ge> 0 then arctan (y / x) + pi
      else if x < 0 then arctan (y / x) - pi
      else if y > 0 then pi / 2
      else if y < 0 then - pi / 2
      else 0)"

definition degrees :: "real \<Rightarrow> real" where
  "degrees a = a * 180 / pi"

definition radians :: "real \<Rightarrow> real" where
  "radians a = a * pi / 180"

definition hypot :: "real \<Rightarrow> real \<Rightarrow> real" where
  "hypot dx dy = sqrt (dx\<^sup>2 + dy\<^sup>2)"

definition move_toward_point :: "point \<Rightarrow> point \<Rightarrow> real \<Rightarrow> real \<Rightarrow> point" where
  "move_toward_point start_point target_point move_dist angle_correction =
     (let dx = fst target_point - fst start_point;
          dy = snd target_point - snd start_point;
          magnitude = hypot dx dy
      in if magnitude = 0 then start_point
         else
           let angle = degrees (atan2 (dy / magnitude) (dx / magnitude));
               new_angle = angle + angle_correction;
               move_x = cos (radians new_angle) * move_dist;
               move_y = sin (radians new_angle) * move_dist
           in (fst start_point + move_x, snd start_point + move_y))"

text \<open>\<open>np.clip(a, lo, hi)\<close> is \<open>minimum(maximum(a, lo), hi)\<close>.\<close>

definition np_clip :: "real \<Rightarrow> real \<Rightarrow> real \<Rightarrow> real" where
  "np_clip a lo hi = min (max a lo) hi"

section \<open>Arc parameters\<close>

text \<open>The numeric parameters read by the arc planner and the motion emitter, as a typed
  record: each field is the value of \<open>kwargs.get\<close> for the key of the same name.
  \<open>source_kwargs\<close> gives the values that \<open>makeFullSettingDict\<close> sets, for a nozzle diameter,
  an extrusion width and the slicer's retraction settings.\<close>

record kwargs =
  nozzle_diameter :: real
  ArcCenterOffset :: real
  ArcWidth :: real
  RMax :: real
  UseLeastAmountOfCenterPoints :: bool
  AllowedArcRetries :: nat
  SafetyBreak_MaxArcNumber :: nat
  MinStartArcs :: nat
  MinDistanceFromPerimeter :: real
  ArcPointsPerMillimeter :: real
  CornerImportanceMultiplier :: real
  ExtendArcDist :: real
  ArcSlowDownBelowThisDuration :: real
  ArcMinPrintSpeed :: real
  ArcPrintSpeed :: real
  ArcTravelFeedRate :: int
  GCodeArcPtMinDist :: real
  retract_length :: real
  retract_speed :: real

definition source_kwargs :: "real \<Rightarrow> real \<Rightarrow> real \<Rightarrow> real \<Rightarrow> kwargs" where
  "source_kwargs nozzle ew rlength rspeed =
     \<lparr>nozzle_diameter = nozzle, ArcCenterOffset = 1.5 * nozzle, ArcWidth = nozzle * 0.95,
      RMax = 30, UseLeastAmountOfCenterPoints = False, AllowedArcRetries = 2,
      SafetyBreak_MaxArcNumber = 2000, MinStartArcs = 2, MinDistanceFromPerimeter = ew,
      ArcPointsPerMillimeter = 10, CornerImportanceMultiplier = 0.2,
      ExtendArcDist = nozzle, ArcSlowDownBelowThisDuration = 3,
      ArcMinPrintSpeed = 0.5 * 60, ArcPrintSpeed = 1.5 * 60, ArcTravelFeedRate = 30 * 60,
      GCodeArcPtMinDist = 0.1, retract_length = rlength, retract_speed = rspeed\<rparr>"

section \<open>Motion emitter\<close>

text \<open>The lines the emitter produces, by their content rather than their text (the text
  formats floats): \<open>G1E e f\<close> is \<open>G1 E<e> F<f>\<close> of \<open>retractGCode\<close>; \<open>ArcComment\<close> is the
  \<open>;Arc ... Length:...\<close> line; \<open>G1XYE p e f\<close> is the move of \<open>p2GCode\<close>, with the feed rate
  only if one was passed and is not zero; \<open>G1F f\<close> is \<open>G1 F<f>\<close> of \<open>setFeedRateGCode\<close>.\<close>

datatype gcmd = G1E real real | ArcComment "nat option" real
  | G1XYE point real "int option" | G1F real

definition retractGCode :: "bool \<Rightarrow> kwargs \<Rightarrow> gcmd" where
  "retractGCode retract kw =
     G1E (if retract then - retract_length kw else retract_length kw) (retract_speed kw * 60)"

definition p2GCode :: "point \<Rightarrow> real \<Rightarrow> int option \<Rightarrow> gcmd" where
  "p2GCode p E F = G1XYE p E (case F of None \<Rightarrow> None | Some f \<Rightarrow> if f = 0 then None else Some f)"

definition setFeedRateGCode :: "real \<Rightarrow> gcmd" where
  "setFeedRateGCode F = G1F F"

text \<open>The loop of \<open>arc2GCode\<close> over \<open>enumerate(pts)\<close>; the state is \<open>GCodeLines\<close> and \<open>p1\<close>.\<close>

fun arc2GCode_loop :: "kwargs \<Rightarrow> real \<Rightarrow> nat option \<Rightarrow> point list \<Rightarrow> point \<Rightarrow> point \<Rightarrow> real
    \<Rightarrow> nat list \<Rightarrow> gcmd list \<times> point \<Rightarrow> gcmd list" where
  "arc2GCode_loop kw eSteps arcidx pts pExtendBegin pExtendEnd arcPrintSpeed [] (GCodeLines, p1) =
     GCodeLines"
| "arc2GCode_loop kw eSteps arcidx pts pExtendBegin pExtendEnd arcPrintSpeed (idp # idps)
     (GCodeLines, p1) =
     (let p = pts ! idp;
          (lines1, p1') =
            (if idp = 0 then
               (GCodeLines @
                  [retractGCode True kw,
                   ArcComment (case arcidx of None \<Rightarrow> None
                               | Some i \<Rightarrow> if i = 0 then None else Some i) (ls_length pts),
                   p2GCode pExtendBegin 0 (Some (ArcTravelFeedRate kw)),
                   p2GCode p (distance pExtendBegin p * eSteps) None,
                   retractGCode False kw,
                   setFeedRateGCode arcPrintSpeed], p)
             else if distance p p1 > GCodeArcPtMinDist kw then
               (GCodeLines @ [p2GCode p (distance p p1 * eSteps) None], p)
             else (GCodeLines, p1));
          lines2 =
            (if idp = length pts - 1
             then lines1 @ [p2GCode pExtendEnd (ExtendArcDist kw * eSteps) None]
             else lines1)
      in arc2GCode_loop kw eSteps arcidx pts pExtendBegin pExtendEnd arcPrintSpeed idps
           (lines2, p1'))"

text \<open>\<open>arc2GCode\<close> for an arc given by the coordinates of its line string. The division by
  \<open>ArcSlowDownBelowThisDuration\<close> raises if that is zero.\<close>

definition arc2GCode :: "point list \<Rightarrow> real \<Rightarrow> nat option \<Rightarrow> kwargs \<Rightarrow> py_error + gcmd list" where
  "arc2GCode arcline eSteps arcidx kw =
     (if length arcline < 2 then Inr []
      else
        let extDist = ExtendArcDist kw;
            pExtendBegin = move_toward_point (arcline ! 0) (arcline ! 1) extDist (- 90);
            pExtendEnd = move_toward_point (last arcline) (arcline ! (length arcline - 2))
                           extDist 90
        in if ArcSlowDownBelowThisDuration kw = 0 then Inl ZeroDivisionError
           else
             let arcPrintSpeed =
                   np_clip (ls_length arcline / ArcSlowDownBelowThisDuration kw * 60)
                     (ArcMinPrintSpeed kw) (ArcPrintSpeed kw)
             in Inr (arc2GCode_loop kw eSteps arcidx arcline pExtendBegin pExtendEnd
                       arcPrintSpeed [0..<length arcline] ([], arcline ! 0)))"

text \<open>The feed rates set by \<open>G1 F\<close> lines, in order.\<close>

fun feedrates :: "gcmd list \<Rightarrow> real list" where
  "feedrates [] = []"
| "feedrates (G1F f # cs) = f # feedrates cs"
| "feedrates (c # cs) = feedrates cs"

section \<open>Start point on the start line\<close>

text \<open>A score is a float that may be NaN: \<open>None\<close> is NaN. The only division of
  \<open>getStartPtOnLS\<close> is by \<open>ls.length\<close>, a numpy division, which gives NaN for \<open>0 / 0\<close> with a
  warning and no exception (the dividend is at most the length, so it is zero when the
  length is).\<close>

type_synonym fl = "real option"

definition fl_div :: "real \<Rightarrow> real \<Rightarrow> fl" where
  "fl_div a b = (if b = 0 then None else Some (a / b))"

text \<open>A greater-than comparison is false when either side is NaN.\<close>

fun fl_gt :: "fl \<Rightarrow> fl \<Rightarrow> bool" where
  "fl_gt (Some a) (Some b) = (a > b)"
| "fl_gt _ _ = False"

text \<open>Python's \<open>max\<close> of a list keeps the first element and replaces it by each later element
  that compares greater; \<open>list.index\<close> gives the first position holding the value.\<close>

fun py_max_from :: "fl \<Rightarrow> fl list \<Rightarrow> fl" where
  "py_max_from m [] = m"
| "py_max_from m (x # xs) = py_max_from (if fl_gt x m then x else m) xs"

definition list_index :: "fl list \<Rightarrow> fl \<Rightarrow> nat" where
  "list_index xs v = length (takeWhile (\<lambda>s. s \<noteq> v) xs)"

text \<open>Vectors of numpy, as pairs.\<close>

definition vsub :: "point \<Rightarrow> point \<Rightarrow> point" where
  "vsub p q = (fst p - fst q, snd p - snd q)"

definition vnorm :: "point \<Rightarrow> real" where
  "vnorm v = sqrt ((fst v)\<^sup>2 + (snd v)\<^sup>2)"

definition vdot :: "point \<Rightarrow> point \<Rightarrow> real" where
  "vdot v w = fst v * fst w + snd v * snd w"

definition vscale :: "point \<Rightarrow> real \<Rightarrow> point" where
  "vscale v c = (fst v / c, snd v / c)"

text \<open>The scoring loop over \<open>enumerate(pts)\<close>; the state is \<open>scores\<close> and \<open>curLength\<close>.
  \<open>cim\<close> is \<open>CornerImportanceMultiplier\<close>.\<close>

fun score_loop :: "real \<Rightarrow> point list \<Rightarrow> nat list \<Rightarrow> fl list \<times> real \<Rightarrow> fl list \<times> real" where
  "score_loop cim pts [] acc = acc"
| "score_loop cim pts (idp # idps) (scores, curLength) =
     (if idp = 0 \<or> idp = length pts - 1
      then score_loop cim pts idps (scores @ [Some 0], curLength)
      else
        let curLength' = curLength + distance (pts ! idp) (pts ! (idp - 1));
            relLength = fl_div curLength' (ls_length pts);
            lengthscore = map_option (\<lambda>x. 1 - \<bar>x - 0.5\<bar>) relLength;
            v1 = vsub (pts ! idp) (pts ! (idp - 1));
            v2 = vsub (pts ! (idp + 1)) (pts ! idp)
        in if vnorm v1 > 0 \<and> vnorm v2 > 0
           then
             let anglescore =
                   \<bar>sin (arccos (np_clip (vdot (vscale v1 (vnorm v1)) (vscale v2 (vnorm v2)))
                                   (- 1) 1))\<bar> * cim
             in score_loop cim pts idps
                  (scores @ [map_option (\<lambda>x. x + anglescore) lengthscore], curLength')
           else score_loop cim pts idps (scores @ [lengthscore], curLength'))"

text \<open>\<open>getStartPtOnLS\<close> on a single line string, given by its coordinates (the branch that
  first picks the longest part of a multi-part geometry is not modelled). \<open>pick\<close> is the
  position that \<open>random.choice\<close> selects. Fewer than two points raise, after a prompt on
  the console.\<close>

definition getStartPtOnLS :: "point list \<Rightarrow> kwargs \<Rightarrow> bool \<Rightarrow> nat \<Rightarrow> py_error + point" where
  "getStartPtOnLS ls kw choseRandom pick =
     (if length ls < 2 then Inl ValueError
      else if length ls = 2 then Inr (midpoint (ls ! 0) (ls ! 1))
      else if choseRandom then Inr (ls ! (pick mod length ls))
      else
        let scores = fst (score_loop (CornerImportanceMultiplier kw) ls [0..<length ls] ([], 0));
            maxIndex = list_index scores (py_max_from (hd scores) (tl scores))
        in Inr (ls ! maxIndex))"

text \<open>The two scores of an interior vertex \<open>j\<close>, in closed form: the hat function of the
  relative length of the line up to the vertex, and the sine of the turning angle times
  the multiplier.\<close>

definition lengthscore :: "point list \<Rightarrow> nat \<Rightarrow> real" where
  "lengthscore ls j =
     1 - \<bar>(\<Sum>k = 1..j. distance (ls ! k) (ls ! (k - 1))) / ls_length ls - 0.5\<bar>"

definition anglescore :: "real \<Rightarrow> point list \<Rightarrow> nat \<Rightarrow> real" where
  "anglescore cim ls j =
     (let v1 = vsub (ls ! j) (ls ! (j - 1)); v2 = vsub (ls ! (j + 1)) (ls ! j)
      in if vnorm v1 > 0 \<and> vnorm v2 > 0
         then \<bar>sin (arccos (np_clip (vdot (vscale v1 (vnorm v1)) (vscale v2 (vnorm v2)))
                             (- 1) 1))\<bar> * cim
         else 0)"

text \<open>The score of every vertex as the loop appends it: zero at the two ends.\<close>

definition vertex_scores :: "real \<Rightarrow> point list \<Rightarrow> nat \<Rightarrow> real" where
  "vertex_scores cim ls j =
     (if j = 0 \<or> j = length ls - 1 then 0 else lengthscore ls j + anglescore cim ls j)"

section \<open>Arc planner\<close>

text \<open>The shapely operations the planner calls, on an abstract type \<open>'g\<close> of geometries:
  \<open>create_circle\<close> is the ring built by the source function of that name (centre, radius,
  points per millimetre), which raises when the radius gives no sample point (a division
  by zero) or too few for a ring; \<open>linemerge_multi\<close> is \<open>linemerge\<close> applied when the geometry is a
  \<open>MultiLineString\<close>; \<open>unary_union\<close> is taken of a pair; \<open>Polygon\<close> makes the polygon
  enclosed by a ring; \<open>get_farthest_points\<close> is the source function of that name, which
  returns \<open>(None, None)\<close> on an empty geometry and otherwise the requested number of
  points with their distances, farthest first.\<close>

record 'g shapely =
  create_circle :: "point \<Rightarrow> real \<Rightarrow> real \<Rightarrow> py_error + 'g"
  intersection :: "'g \<Rightarrow> 'g \<Rightarrow> 'g"
  linemerge_multi :: "'g \<Rightarrow> 'g"
  is_empty :: "'g \<Rightarrow> bool"
  intersects :: "'g \<Rightarrow> 'g \<Rightarrow> bool"
  difference :: "'g \<Rightarrow> 'g \<Rightarrow> 'g"
  buffer :: "'g \<Rightarrow> real \<Rightarrow> 'g"
  boundary :: "'g \<Rightarrow> 'g"
  unary_union :: "'g \<Rightarrow> 'g \<Rightarrow> 'g"
  Polygon :: "'g \<Rightarrow> 'g"
  get_farthest_points :: "'g \<Rightarrow> 'g \<Rightarrow> nat \<Rightarrow> py_error + (point \<times> real) list option"
  area :: "'g \<Rightarrow> real"

text \<open>\<open>class Arc\<close>: the attributes \<open>center\<close>, \<open>r\<close>, \<open>circle\<close> and \<open>arcline\<close>.\<close>

record 'g arc =
  arc_center :: point
  arc_r :: real
  arc_circle :: 'g
  arc_arcline :: 'g

text \<open>\<open>Arc.generateConcentricArc\<close> sets \<open>circle\<close> and \<open>arcline\<close>.\<close>

definition generateConcentricArc :: "'g shapely \<Rightarrow> kwargs \<Rightarrow> point \<Rightarrow> real \<Rightarrow> 'g
    \<Rightarrow> py_error + 'g arc" where
  "generateConcentricArc G kw startpt radius remainingSpace =
     (case create_circle G startpt radius (ArcPointsPerMillimeter kw) of
        Inl e \<Rightarrow> Inl e
      | Inr ring \<Rightarrow>
          Inr \<lparr>arc_center = startpt, arc_r = radius, arc_circle = ring,
               arc_arcline = linemerge_multi G (intersection G ring remainingSpace)\<rparr>)"

text \<open>\<open>np.arange(start, stop, step)\<close> on reals: the values \<open>start + i * step\<close> for
  \<open>i < ceil((stop - start) / step)\<close>.\<close>

definition np_arange :: "real \<Rightarrow> real \<Rightarrow> real \<Rightarrow> real list" where
  "np_arange start stop step =
     map (\<lambda>i. start + real i * step) [0..<nat \<lceil>(stop - start) / step\<rceil>]"

text \<open>The loop of \<open>generateMultipleConcentricArcs\<close> over the radii.\<close>

fun arcs_loop :: "'g shapely \<Rightarrow> kwargs \<Rightarrow> point \<Rightarrow> 'g \<Rightarrow> 'g \<Rightarrow> real list \<Rightarrow> 'g arc list
    \<Rightarrow> py_error + 'g arc list" where
  "arcs_loop G kw startpt basePoly remainingSpace [] arcs = Inr arcs"
| "arcs_loop G kw startpt basePoly remainingSpace (radius # r_values) arcs =
     (case generateConcentricArc G kw startpt radius remainingSpace of
        Inl e \<Rightarrow> Inl e
      | Inr arcObj \<Rightarrow>
          if is_empty G (arc_arcline arcObj) then Inr arcs
          else if intersects G basePoly (arc_arcline arcObj)
                  \<and> \<not> UseLeastAmountOfCenterPoints kw
          then Inr (arcs @ [arcObj])
          else arcs_loop G kw startpt basePoly remainingSpace r_values (arcs @ [arcObj]))"

text \<open>\<open>generateMultipleConcentricArcs\<close>. \<open>np.arange\<close> divides by the step and raises
  \<open>ZeroDivisionError\<close> when it is zero.\<close>

definition generateMultipleConcentricArcs :: "'g shapely \<Rightarrow> point \<Rightarrow> real \<Rightarrow> real \<Rightarrow> 'g \<Rightarrow> 'g
    \<Rightarrow> kwargs \<Rightarrow> py_error + 'g arc list" where
  "generateMultipleConcentricArcs G startpt rMin rMax basePoly remainingSpace kw =
     (if ArcWidth kw = 0 then Inl ZeroDivisionError
      else arcs_loop G kw startpt basePoly remainingSpace
             (np_arange rMin (rMax + ArcWidth kw) (ArcWidth kw)) [])"

text \<open>The state of the loop of \<open>fill_remaining_space\<close>: \<open>last_arc\<close>, \<open>filled_space\<close>, \<open>arcs\<close>,
  \<open>failureCount\<close>, and whether a \<open>break\<close> was taken.\<close>

record 'g fill_state =
  fs_last_arc :: "'g arc"
  fs_filled_space :: 'g
  fs_arcs :: "'g arc list"
  fs_failureCount :: nat
  fs_stopped :: bool

text \<open>One pass through the body of the loop. Reading \<open>.size\<close> of the \<open>None\<close> that
  \<open>get_farthest_points\<close> returns for an empty boundary raises, and so does indexing the
  distances beyond their number.\<close>

definition fill_iteration :: "'g shapely \<Rightarrow> kwargs \<Rightarrow> real \<Rightarrow> real \<Rightarrow> real \<Rightarrow> 'g
    \<Rightarrow> 'g fill_state \<Rightarrow> py_error + 'g fill_state" where
  "fill_iteration G kw r_min r_max min_distance_from_perimeter poly st =
     (let remaining_space = difference G poly (buffer G (fs_filled_space st) (ArcWidth kw / 2))
      in case get_farthest_points G (boundary G (fs_filled_space st)) poly
                (AllowedArcRetries kw + 1) of
           Inl e \<Rightarrow> Inl e
         | Inr None \<Rightarrow> Inl AttributeError
         | Inr (Some farthest) \<Rightarrow>
             if length farthest = 0 then Inr (st\<lparr>fs_stopped := True\<rparr>)
             else if length farthest \<le> fs_failureCount st then Inl IndexError
             else if snd (farthest ! fs_failureCount st) < min_distance_from_perimeter
             then Inr (st\<lparr>fs_stopped := True\<rparr>)
             else
               let start_pt = move_toward_point (fst (farthest ! fs_failureCount st))
                                (arc_center (fs_last_arc st)) (ArcCenterOffset kw) 0
               in case generateMultipleConcentricArcs G start_pt r_min r_max (boundary G poly)
                         remaining_space kw of
                    Inl e \<Rightarrow> Inl e
                  | Inr concentric_arcs \<Rightarrow>
                      if length concentric_arcs = 0 then
                        (if fs_failureCount st + 1 \<ge> AllowedArcRetries kw
                         then Inr (st\<lparr>fs_failureCount := fs_failureCount st + 1,
                                       fs_stopped := True\<rparr>)
                         else Inr (st\<lparr>fs_failureCount := fs_failureCount st + 1\<rparr>))
                      else
                        Inr (st\<lparr>fs_failureCount := 0,
                                fs_last_arc := last concentric_arcs,
                                fs_filled_space :=
                                  intersection G poly
                                    (unary_union G (fs_filled_space st)
                                       (Polygon G (arc_circle (last concentric_arcs)))),
                                fs_arcs := fs_arcs st @ concentric_arcs\<rparr>))"

text \<open>The \<open>for\<close> loop over \<open>range(SafetyBreak_MaxArcNumber)\<close>: at most \<open>n\<close> passes, none
  after a \<open>break\<close>.\<close>

fun fill_loop :: "'g shapely \<Rightarrow> kwargs \<Rightarrow> real \<Rightarrow> real \<Rightarrow> real \<Rightarrow> 'g \<Rightarrow> nat
    \<Rightarrow> 'g fill_state \<Rightarrow> py_error + 'g fill_state" where
  "fill_loop G kw r_min r_max md poly 0 st = Inr st"
| "fill_loop G kw r_min r_max md poly (Suc n) st =
     (if fs_stopped st then Inr st
      else case fill_iteration G kw r_min r_max md poly st of
             Inl e \<Rightarrow> Inl e
           | Inr st' \<Rightarrow> fill_loop G kw r_min r_max md poly n st')"



text \<open>Shapely's operations denote sets of points: \<open>region\<close> gives the points of a geometry,
  intersection and union are those of the point sets, and the area grows with the set.\<close>

definition sound_geometry :: "'g shapely \<Rightarrow> ('g \<Rightarrow> point set) \<Rightarrow> bool" where
  "sound_geometry G region \<longleftrightarrow>
     (\<forall>a b. region (intersection G a b) = region a \<inter> region b)
     \<and> (\<forall>a b. region (unary_union G a b) = region a \<union> region b)
     \<and> (\<forall>a b. region a \<subseteq> region b \<longrightarrow> area G a \<le> area G b)"

section \<open>Sample geometry\<close>

text \<open>The parameters for a 0.4 mm nozzle, 0.45 mm extrusion width, 0.8 mm retraction at
  35 mm/s.\<close>

definition sample_kwargs :: kwargs where
  "sample_kwargs = source_kwargs 0.4 0.45 0.8 35"

text \<open>A small geometry for examples: the plane falls into two cells, a geometry is the pair
  of flags saying which cells it meets, and the area counts the cells. A circle meets both
  cells; buffering and taking the boundary change nothing at this resolution. With the
  polygon \<open>(True, True)\<close> and the base outline \<open>(False, False)\<close> it stands for a polygon so
  wide that no circle up to the largest radius leaves it or touches the outline away from
  the start line, such as a 100 mm by 50 mm rectangle resting on one long edge with the
  start point in the middle of that edge.\<close>

definition cells_geometry :: "(bool \<times> bool) shapely" where
  "cells_geometry =
     \<lparr>create_circle = (\<lambda>c rad ppm. Inr (True, True)),
      intersection = (\<lambda>(a, b) (c, d). (a \<and> c, b \<and> d)),
      linemerge_multi = (\<lambda>g. g),
      is_empty = (\<lambda>(a, b). \<not> a \<and> \<not> b),
      intersects = (\<lambda>(a, b) (c, d). (a \<and> c) \<or> (b \<and> d)),
      difference = (\<lambda>(a, b) (c, d). (a \<and> \<not> c, b \<and> \<not> d)),
      buffer = (\<lambda>g d. g),
      boundary = (\<lambda>g. g),
      unary_union = (\<lambda>(a, b) (c, d). (a \<or> c, b \<or> d)),
      Polygon = (\<lambda>g. g),
      get_farthest_points = (\<lambda>(a, b) to_poly n.
         Inr (if \<not> a \<and> \<not> b then None else Some (replicate n ((0, 0), 1)))),
      area = (\<lambda>(a, b). (if a then 1 else 0) + (if b then 1 else 0))\<rparr>"

text \<open>The arc that \<open>generateConcentricArc\<close> builds in this geometry.\<close>

definition cells_arc :: "point \<Rightarrow> real \<Rightarrow> bool \<times> bool \<Rightarrow> (bool \<times> bool) arc" where
  "cells_arc startpt radius remainingSpace =
     \<lparr>arc_center = startpt, arc_r = radius, arc_circle = (True, True),
      arc_arcline = remainingSpace\<rparr>"

definition cells_region :: "bool \<times> bool \<Rightarrow> point set" where
  "cells_region g = {p. (fst g \<and> p = (0, 0)) \<or> (snd g \<and> p = (1, 0))}"

text \<open>A start line with two interior vertices: the first lies nearer the middle of the line,
  the second is a right-angled corner.\<close>

definition bent_line :: "point list" where
  "bent_line = [(0, 0), (5, 0), (6, 0), (6, 2)]"

text \<open>A start line whose only interior vertex is a right-angled corner.\<close>

definition corner_line :: "point list" where
  "corner_line = [(0, 0), (1, 0), (1, 1)]"

section \<open>Properties of the tokenizer\<close>

lemma split_loop_concat:
  "split_loop gcode gl buff = (gl', buff') \<Longrightarrow> concat gl' @ buff' = concat gl @ buff @ gcode"
  by (induction gcode arbitrary: gl buff) (auto split: if_splits)

text \<open>Claim C9. For every non-empty list of input lines, \<open>splitGCodeIntoLayers\<close> returns
  a non-empty list of layers whose concatenation, in order, is exactly the input.\<close>

theorem splitGCodeIntoLayers_partition:
  "gcode \<noteq> [] \<Longrightarrow>
     \<exists>layers. splitGCodeIntoLayers gcode = Inr layers \<and> layers \<noteq> [] \<and> concat layers = gcode"
proof -
  assume ne: "gcode \<noteq> []"
  obtain gl buff where s: "split_loop gcode [] [] = (gl, buff)"
    by (cases "split_loop gcode [] []")
  from split_loop_concat [OF s] have "concat (gl @ [buff]) = gcode" by simp
  with ne s show ?thesis by (simp add: splitGCodeIntoLayers_def)
qed

theorem splitGCodeIntoLayers_partition_witness:
  "[''G28'', '';LAYER_CHANGE'', ''G1 Z0.2'', '';LAYER_CHANGE'', ''G1 Z0.4''] \<noteq> [] \<and>
   splitGCodeIntoLayers [''G28'', '';LAYER_CHANGE'', ''G1 Z0.2'', '';LAYER_CHANGE'', ''G1 Z0.4'']
     = Inr [[''G28''], ['';LAYER_CHANGE'', ''G1 Z0.2''], ['';LAYER_CHANGE'', ''G1 Z0.4'']]"
  using splitGCodeIntoLayers_partition
    [of "[''G28'', '';LAYER_CHANGE'', ''G1 Z0.2'', '';LAYER_CHANGE'', ''G1 Z0.4'']"]
  by (simp add: splitGCodeIntoLayers_def)


section \<open>Properties of the main pass\<close>

lemma map_update_same: "f y = f (xs ! i) \<Longrightarrow> map f (xs[i := y]) = map f xs"
  by (induction xs arbitrary: i) (auto split: nat.splits)

lemma propagate_lines:
  "propagate maxZ polys idl idoffset currZ objs = Inr objs' \<Longrightarrow> map lines objs' = map lines objs"
proof (induction maxZ polys idl idoffset currZ objs rule: propagate.induct)
  case (1 maxZ polys idl idoffset currZ layerobjs)
  show ?case
  proof (cases "py_lt currZ maxZ")
    case (Inl e)
    with "1.prems" show ?thesis by (simp add: propagate.simps)
  next
    case (Inr below)
    show ?thesis
    proof (cases "below \<and> int (idl + idoffset) \<le> int (length layerobjs) - 1")
      case True
      with Inr "1.prems" "1.IH" [OF Inr True] show ?thesis
        by (subst (asm) propagate.simps) (simp add: map_update_same)
    next
      case False
      with Inr "1.prems" show ?thesis
        by (subst (asm) propagate.simps) auto
    qed
  qed
qed

lemma poly_loop_lines:
  "poly_loop env P idl polys (st, g, m) = Inr (st', g', m') \<Longrightarrow>
     map lines (layerobjs st') = map lines (layerobjs st)"
proof (induction polys arbitrary: st g m)
  case Nil
  then show ?case by simp
next
  case (Cons poly polys)
  show ?case
  proof (cases "arcs4poly env P idl (layerobjs st) poly (store st)")
    case (Inl e)
    with Cons.prems show ?thesis by simp
  next
    case (Inr r)
    obtain res aux where r: "r = (res, aux)" by (cases r)
    show ?thesis
    proof (cases res)
      case None
      with Cons.prems Inr r Cons.IH [of _ g m] show ?thesis
        by (simp add: map_update_same)
    next
      case (Some code)
      with Cons.prems Inr r Cons.IH [of _ "g @ code" True] show ?thesis
        by simp
    qed
  qed
qed

lemma arc_generation_lines:
  "arc_generation env P idl st = Inr (st', g', m') \<Longrightarrow>
     map lines (layerobjs st') = map lines (layerobjs st)"
  unfolding arc_generation_def py_bind_def Let_def
  by (auto split: sum.splits dest!: poly_loop_lines propagate_lines)

lemma layer_iteration_frame:
  assumes "layer_iteration env P idl st = Inr st'"
  shows "take 2 (map lines (layerobjs st')) = take 2 (map lines (layerobjs st))"
proof (cases "idl < 2")
  case True
  with assms show ?thesis by (simp add: layer_iteration_def)
next
  case False
  then have ge: "2 \<le> idl" by simp
  from assms False show ?thesis
    unfolding layer_iteration_def py_bind_def Let_def
    by (auto split: sum.splits if_splits prod.splits dest!: arc_generation_lines
             simp: map_update_same map_update take_update_cancel [OF ge])
qed

lemma main_loop_frame:
  "main_loop env P idls st = Inr st' \<Longrightarrow>
     take 2 (map lines (layerobjs st')) = take 2 (map lines (layerobjs st))"
  by (induction idls arbitrary: st) (auto split: sum.splits dest!: layer_iteration_frame)

lemma build_layers_lines:
  "build_layers env P idl layers objs aux = Inr (objs', aux') \<Longrightarrow>
     map lines objs' = map lines objs @ layers"
  by (induction layers arbitrary: idl objs aux) (auto split: sum.splits simp: Layer_def)

lemma main_state_frame:
  assumes "main_state env gCodeLines = Inr (P, st)"
    and "splitGCodeIntoLayers gCodeLines = Inr layers"
  shows "take 2 (map lines (layerobjs st)) = take 2 layers"
  using assms unfolding main_state_def py_bind_def
  by (auto split: sum.splits if_splits prod.splits dest!: main_loop_frame build_layers_lines)


text \<open>Claim C2. The lines of layer 0 and layer 1 of the split reach the end of the main loop
  unchanged, and whatever \<open>main\<close> writes starts with them: every path of the file system
  either keeps its content or holds the two layers followed by the rest of the output.\<close>

theorem layers_0_1_unchanged:
  assumes "splitGCodeIntoLayers gCodeLines = Inr layers"
  shows "(\<forall>P st. main_state env gCodeLines = Inr (P, st)
            \<longrightarrow> take 2 (map lines (layerobjs st)) = take 2 layers)
       \<and> (\<forall>p. snd (main env gCodeLines path fs) p = fs p
            \<or> (\<exists>rest. snd (main env gCodeLines path fs) p = Some (concat (take 2 layers) @ rest)))"
proof (intro conjI allI impI)
  fix P st assume "main_state env gCodeLines = Inr (P, st)"
  from main_state_frame [OF this assms]
  show "take 2 (map lines (layerobjs st)) = take 2 layers" .
next
  fix p
  show "snd (main env gCodeLines path fs) p = fs p
      \<or> (\<exists>rest. snd (main env gCodeLines path fs) p = Some (concat (take 2 layers) @ rest))"
  proof (cases "main_state env gCodeLines")
    case (Inl e)
    then show ?thesis by (simp add: main_def)
  next
    case (Inr r)
    obtain P st where r: "r = (P, st)" by (cases r)
    from main_state_frame [OF Inr [unfolded r] assms]
    have t: "take 2 (map lines (layerobjs st)) = take 2 layers" .
    have "concat (map lines (layerobjs st))
        = concat (take 2 (map lines (layerobjs st))) @ concat (drop 2 (map lines (layerobjs st)))"
      by (metis append_take_drop_id concat_append)
    with t have out: "concat (map lines (layerobjs st))
        = concat (take 2 layers) @ concat (drop 2 (map lines (layerobjs st)))" by simp
    show ?thesis
      using Inr r out by (auto simp: main_def split: pyval.splits)
  qed
qed

lemmas demo_lines = demo_gcode_def demo_layer0_def demo_layer1_def demo_layer2_def
  demo_layer3_def demo_config_def

lemma demo_split:
  "splitGCodeIntoLayers (demo_gcode relative) =
     Inr [demo_layer0, demo_layer1, demo_layer2, demo_layer3 @ demo_config relative]"
  by (simp add: splitGCodeIntoLayers_def demo_lines)

lemma makeFullSettingDict_cases:
  assumes "makeFullSettingDict d = Inr P"
  obtains aco aw eaip ehip mdfp where
    "P = d ++ map_of (AddManualSettingsDict (dict_get d ''nozzle_diameter'') aco aw eaip ehip mdfp)"
  using assms unfolding makeFullSettingDict_def py_bind_def Let_def
  by (auto split: sum.splits)

lemma makeFullSettingDict_manual:
  assumes "makeFullSettingDict d = Inr P"
  shows "dict_get P ''specialCoolingZdist'' = PInt 3"
    and "dict_get P ''doSpecialCooling'' = PBool True"
    and "dict_get P ''Path2Output'' = PStr []"
proof -
  from assms obtain aco aw eaip ehip mdfp where
    P: "P = d ++ map_of (AddManualSettingsDict (dict_get d ''nozzle_diameter'') aco aw eaip ehip mdfp)"
    by (rule makeFullSettingDict_cases)
  show "dict_get P ''specialCoolingZdist'' = PInt 3"
    unfolding P by (simp add: dict_get_def map_add_def AddManualSettingsDict_def)
  show "dict_get P ''doSpecialCooling'' = PBool True"
    unfolding P by (simp add: dict_get_def map_add_def AddManualSettingsDict_def)
  show "dict_get P ''Path2Output'' = PStr []"
    unfolding P by (simp add: dict_get_def map_add_def AddManualSettingsDict_def)
qed

lemma makeFullSettingDict_parsed:
  assumes "makeFullSettingDict d = Inr P"
    and "k \<notin> fst ` set (AddManualSettingsDict PNone PNone PNone PNone PNone PNone)"
  shows "dict_get P k = dict_get d k"
proof -
  from assms(1) obtain aco aw eaip ehip mdfp where
    P: "P = d ++ map_of (AddManualSettingsDict (dict_get d ''nozzle_diameter'') aco aw eaip ehip mdfp)"
    by (rule makeFullSettingDict_cases)
  have "fst ` set (AddManualSettingsDict (dict_get d ''nozzle_diameter'') aco aw eaip ehip mdfp)
      = fst ` set (AddManualSettingsDict PNone PNone PNone PNone PNone PNone)"
    by (simp add: AddManualSettingsDict_def)
  with assms(2) have "map_of (AddManualSettingsDict (dict_get d ''nozzle_diameter'') aco aw eaip ehip mdfp) k = None"
    by (simp add: map_of_eq_None_iff)
  then show ?thesis unfolding P by (simp add: dict_get_def map_add_def)
qed

lemma demo_parameters:
  obtains P where "makeFullSettingDict (demo_settings relative) = Inr P"
    and "checkforNecesarrySettings P = Inr relative"
    and "dict_get P ''z'' = PNone"
proof -
  have "\<exists>P. makeFullSettingDict (demo_settings relative) = Inr P"
    by (simp add: makeFullSettingDict_def demo_settings_def
        py_bind_def py_mul_float_def py_num_def dict_get_def Let_def)
  then obtain P where P: "makeFullSettingDict (demo_settings relative) = Inr P" by blast
  have k: "dict_get P ''use_relative_e_distances'' = PInt (if relative then 1 else 0)"
    "dict_get P ''extrusion_width'' = PFloat 0.45"
    "dict_get P ''overhangs'' = PInt 1"
    "dict_get P ''bridge_speed'' = PInt 5"
    "dict_get P ''perimeter_extrusion_width'' = PFloat 0.45"
    "dict_get P ''solid_infill_extrusion_width'' = PFloat 0.45"
    "dict_get P ''z'' = PNone"
    by ((subst makeFullSettingDict_parsed [OF P];
         simp add: AddManualSettingsDict_def demo_settings_def dict_get_def)+)
  have c: "checkforNecesarrySettings P = Inr relative"
    by (simp add: checkforNecesarrySettings_def k py_bind_def py_lt_def py_gt_def py_num_def)
  from P c k(7) show ?thesis by (rule that)
qed

lemma demo_env_fields:
  "readSettingsFromGCode2dict demo_env (demo_gcode relative) = Inr (demo_settings relative, ())"
  "stdin_eof demo_env = False"
  "addZ demo_env demo_layer0 = Inr None"
  "addZ demo_env demo_layer1 = Inr (Some 0.2)"
  "addZ demo_env demo_layer2 = Inr (Some 0.4)"
  "addZ demo_env (demo_layer3 @ demo_config relative) = Inr (Some 0.6)"
  "addHeight demo_env = (\<lambda>P idl ls aux. Inr aux)"
  "spotFanSetting demo_env = (\<lambda>idl ls aux. Inr aux)"
  "detect_overhangs demo_env = (\<lambda>P idl objs aux. Inr (if idl = 3 then [7] else [], aux))"
  "arcs4poly demo_env = (\<lambda>P idl objs poly aux. Inr (Some [''G1 X2 Y2 E0.1''], aux))"
  "hilbert demo_env = (\<lambda>P idl objs aux. Inr aux)"
  "rewrite demo_env = (\<lambda>P idl objs arcOverhangGCode modified aux.
                   Inr (take 2 (lines (objs ! idl)) @ ['';TYPE:Arc infill''] @ arcOverhangGCode
                          @ drop 4 (lines (objs ! idl)), aux))"
  by (simp_all add: demo_env_def demo_lines)


lemma demo_layer3_rewritten:
  "take 2 (demo_layer3 @ demo_config relative) = ['';LAYER_CHANGE'', ''G1 Z0.6'']"
  "drop 4 (demo_layer3 @ demo_config relative) = demo_config relative"
  by (simp_all add: demo_layer3_def)

lemma demo_main_state:
  "\<exists>P st. main_state demo_env (demo_gcode True) = Inr (P, st) \<and> gcodeWasModified st
     \<and> dict_get P ''Path2Output'' = PStr []
     \<and> map lines (layerobjs st) =
         [demo_layer0, demo_layer1, demo_layer2,
          ['';LAYER_CHANGE'', ''G1 Z0.6'', '';TYPE:Arc infill'', ''G1 X2 Y2 E0.1'']
            @ demo_config True]"
proof -
  obtain P where P: "makeFullSettingDict (demo_settings True) = Inr P"
    and c: "checkforNecesarrySettings P = Inr True" and z: "dict_get P ''z'' = PNone"
    by (rule demo_parameters)
  note m = makeFullSettingDict_manual [OF P]
  have "main_state demo_env (demo_gcode True) = Inr (P,
      \<lparr>layerobjs =
         [\<lparr>lines = demo_layer0, layernumber = 0, z = PNone, validpolys = [], oldpolys = [],
           failedArcGenPolys = []\<rparr>,
          \<lparr>lines = demo_layer1, layernumber = 1, z = PFloat 0.2, validpolys = [],
           oldpolys = [], failedArcGenPolys = []\<rparr>,
          \<lparr>lines = demo_layer2, layernumber = 2, z = PFloat 0.4, validpolys = [],
           oldpolys = [], failedArcGenPolys = []\<rparr>,
          \<lparr>lines = ['';LAYER_CHANGE'', ''G1 Z0.6'', '';TYPE:Arc infill'', ''G1 X2 Y2 E0.1'']
                     @ demo_config True,
           layernumber = 3, z = PNone, validpolys = [], oldpolys = [],
           failedArcGenPolys = []\<rparr>],
       gcodeWasModified = True, numOverhangs = 1, store = ()\<rparr>)"
    by (simp add: main_state_def demo_env_fields demo_layer3_rewritten P c demo_split
          py_bind_def Layer_def z m
          layer_iteration_def arc_generation_def py_num_def py_lt_def propagate.simps
          upt_rec [of 0] upt_rec [of 1] upt_rec [of 2] upt_rec [of 3] Let_def
          del: take_append drop_append)
  then show ?thesis using m(3) by simp
qed

theorem layers_0_1_unchanged_witness:
  "splitGCodeIntoLayers (demo_gcode True) =
     Inr [demo_layer0, demo_layer1, demo_layer2, demo_layer3 @ demo_config True]
   \<and> snd (main demo_env (demo_gcode True) ''in.gcode'' [''in.gcode'' \<mapsto> demo_gcode True])
        ''in.gcode'' =
       Some (concat (take 2 [demo_layer0, demo_layer1, demo_layer2,
                             demo_layer3 @ demo_config True])
             @ demo_layer2
             @ ['';LAYER_CHANGE'', ''G1 Z0.6'', '';TYPE:Arc infill'', ''G1 X2 Y2 E0.1'']
             @ demo_config True)"
proof -
  obtain P st where ms: "main_state demo_env (demo_gcode True) = Inr (P, st)"
    and md: "gcodeWasModified st" and po: "dict_get P ''Path2Output'' = PStr []"
    and ls: "map lines (layerobjs st) =
         [demo_layer0, demo_layer1, demo_layer2,
          ['';LAYER_CHANGE'', ''G1 Z0.6'', '';TYPE:Arc infill'', ''G1 X2 Y2 E0.1'']
            @ demo_config True]"
    using demo_main_state by (elim exE conjE) (rule that)
  from layers_0_1_unchanged [OF demo_split, of demo_env True "''in.gcode''"
      "[''in.gcode'' \<mapsto> demo_gcode True]"]
  have "take 2 (map lines (layerobjs st)) = [demo_layer0, demo_layer1]"
    using ms by simp
  then show ?thesis using ms md po ls by (simp add: main_def demo_split)
qed








lemma manual_keeps_relative_e:
  "dict_get (d ++ map_of (AddManualSettingsDict n a b c e f)) ''use_relative_e_distances''
     = dict_get d ''use_relative_e_distances''"
  by (simp add: dict_get_def map_add_def AddManualSettingsDict_def)

lemma makeFullSettingDict_relative_e:
  "makeFullSettingDict d = Inr P \<Longrightarrow>
     dict_get P ''use_relative_e_distances'' = dict_get d ''use_relative_e_distances''"
  unfolding makeFullSettingDict_def py_bind_def Let_def
  by (auto split: sum.splits simp: manual_keeps_relative_e)

text \<open>Claim C8. If the parsed settings give \<open>use_relative_e_distances\<close> a falsy value,
  \<open>checkforNecesarrySettings\<close> returns false (on the parsed dictionary and on the full
  parameter dictionary), and \<open>main\<close> ends with an exception that is decided by the settings
  and the console alone, before any layer is built, with the file system unchanged.\<close>

theorem refuses_without_relative_e:
  assumes "readSettingsFromGCode2dict env gCodeLines = Inr (d, aux0)"
    and "\<not> truthy (dict_get d ''use_relative_e_distances'')"
  shows "checkforNecesarrySettings d = Inr False
       \<and> (\<forall>P. makeFullSettingDict d = Inr P \<longrightarrow> checkforNecesarrySettings P = Inr False)
       \<and> main env gCodeLines path fs =
           (Inl (case makeFullSettingDict d of Inl e \<Rightarrow> e
                 | Inr P \<Rightarrow> if stdin_eof env then EOFError else ValueError), fs)"
proof (intro conjI allI impI)
  show "checkforNecesarrySettings d = Inr False"
    using assms(2) by (simp add: checkforNecesarrySettings_def)
next
  fix P assume "makeFullSettingDict d = Inr P"
  from makeFullSettingDict_relative_e [OF this] assms(2)
  show "checkforNecesarrySettings P = Inr False"
    by (simp add: checkforNecesarrySettings_def)
next
  show "main env gCodeLines path fs =
           (Inl (case makeFullSettingDict d of Inl e \<Rightarrow> e
                 | Inr P \<Rightarrow> if stdin_eof env then EOFError else ValueError), fs)"
  proof (cases "makeFullSettingDict d")
    case (Inl e)
    with assms(1) show ?thesis by (simp add: main_def main_state_def py_bind_def)
  next
    case (Inr P)
    from makeFullSettingDict_relative_e [OF this] assms(2)
    have "checkforNecesarrySettings P = Inr False"
      by (simp add: checkforNecesarrySettings_def)
    with Inr assms(1) show ?thesis by (simp add: main_def main_state_def py_bind_def)
  qed
qed

theorem refuses_without_relative_e_witness:
  "readSettingsFromGCode2dict demo_env (demo_gcode False) = Inr (demo_settings False, ())
   \<and> \<not> truthy (dict_get (demo_settings False) ''use_relative_e_distances'')
   \<and> checkforNecesarrySettings (demo_settings False) = Inr False
   \<and> main demo_env (demo_gcode False) ''in.gcode'' [''in.gcode'' \<mapsto> demo_gcode False]
       = (Inl ValueError, [''in.gcode'' \<mapsto> demo_gcode False])"
proof -
  have r: "readSettingsFromGCode2dict demo_env (demo_gcode False) = Inr (demo_settings False, ())"
    by (rule demo_env_fields)
  have f: "\<not> truthy (dict_get (demo_settings False) ''use_relative_e_distances'')"
    by (simp add: demo_settings_def dict_get_def)
  have e: "\<not> stdin_eof demo_env" by (simp add: demo_env_fields)
  obtain P where P: "makeFullSettingDict (demo_settings False) = Inr P"
    by (rule demo_parameters)
  from refuses_without_relative_e [OF r f, of "''in.gcode''"
      "[''in.gcode'' \<mapsto> demo_gcode False]"]
  show ?thesis using r f e P by simp
qed

text \<open>Claim C7. The polygons of layer \<open>L\<close> should reach exactly the later layers with
  \<open>L.z < z \<le> L.z + specialCoolingZdist\<close>. The loop tests the Z of the layer it annotated
  last, so the first layer above the bound receives them too: with layers 0.4 mm apart and
  the overhang at Z 1.0, the bound is 4.0 and the layer at Z 4.2 is annotated.\<close>

theorem propagate_overshoots:
  "\<exists>objs. propagate (1.0 + 3) [7] 2 1 (PFloat 1.0) coarse_layers = Inr objs
      \<and> map oldpolys objs = [[], [], [], [7], [7], [7], [7], [7], [7], [7], [7], []]
      \<and> z (coarse_layers ! 10) = PFloat 4.2 \<and> (4.2 :: real) > 1.0 + 3"
  by (simp add: coarse_layers_def propagate.simps py_lt_def py_num_def py_bind_def)


section \<open>Properties of bridge infill identifiers\<close>

text \<open>Claim C10. Every \<open>BridgeInfill\<close> built without an id gets the default fixed when the
  class was defined, so any two of them have the same id, whatever their points, and all
  the ids that \<open>spotBridgeInfill\<close> and \<open>makePolysFromBridgeInfill\<close> record for a layer are
  that one value.\<close>

theorem default_id_shared:
  "bi_id (BridgeInfill default_id pts1 None) = default_id
   \<and> bi_id (BridgeInfill default_id pts1 None) = bi_id (BridgeInfill default_id pts2 None)
   \<and> associatedIDs (spotBridgeInfill default_id parts []) = replicate (length parts) default_id"
  by (simp add: BridgeInfill_def associatedIDs_def spotBridgeInfill_def comp_def
        map_replicate_const)

section \<open>Properties of the motion emitter\<close>

lemma sqrt9: "sqrt 9 = 3"
  using real_sqrt_abs [of 3] by simp

lemma feedrates_append: "feedrates (xs @ ys) = feedrates xs @ feedrates ys"
  by (induction xs rule: feedrates.induct) auto

lemma arc2GCode_loop_tail:
  "0 \<notin> set idps \<Longrightarrow>
   \<exists>rest. arc2GCode_loop kw eSteps arcidx pts pb pe speed idps (G, p1) = G @ rest
      \<and> feedrates rest = []"
proof (induction idps arbitrary: G p1)
  case Nil
  then show ?case by simp
next
  case (Cons idp idps)
  from Cons.prems have nz: "idp \<noteq> 0" and rest: "0 \<notin> set idps" by auto
  define step where "step = (if distance (pts ! idp) p1 > GCodeArcPtMinDist kw
      then [p2GCode (pts ! idp) (distance (pts ! idp) p1 * eSteps) None] else [])
    @ (if idp = length pts - 1 then [p2GCode pe (ExtendArcDist kw * eSteps) None] else [])"
  define q where "q = (if distance (pts ! idp) p1 > GCodeArcPtMinDist kw then pts ! idp else p1)"
  have unfold: "arc2GCode_loop kw eSteps arcidx pts pb pe speed (idp # idps) (G, p1)
      = arc2GCode_loop kw eSteps arcidx pts pb pe speed idps (G @ step, q)"
    using nz by (simp add: step_def q_def Let_def)
  have fs: "feedrates step = []"
    by (simp add: step_def p2GCode_def)
  from Cons.IH [OF rest, of "G @ step" q] obtain rest' where
    r: "arc2GCode_loop kw eSteps arcidx pts pb pe speed idps (G @ step, q) = (G @ step) @ rest'"
    and f: "feedrates rest' = []" by blast
  show ?case
    using unfold r f fs by (intro exI [of _ "step @ rest'"]) (simp add: feedrates_append)
qed

text \<open>Claim C6, as amended. For an arc with at least two points (and a non-zero
  \<open>ArcSlowDownBelowThisDuration\<close>), \<open>arc2GCode\<close> sets the feed rate once, in its sixth line,
  before the moves along the arc, to
  \<open>clip(arc_length / ArcSlowDownBelowThisDuration * 60, ArcMinPrintSpeed, ArcPrintSpeed)\<close>:
  the quotient is in mm/s and is converted to mm/min before clamping.\<close>

theorem arc_feedrate:
  assumes "2 \<le> length arcline" and "ArcSlowDownBelowThisDuration kw \<noteq> 0"
  shows "\<exists>cmds. arc2GCode arcline eSteps arcidx kw = Inr cmds
      \<and> feedrates cmds =
          [np_clip (ls_length arcline / ArcSlowDownBelowThisDuration kw * 60)
             (ArcMinPrintSpeed kw) (ArcPrintSpeed kw)]
      \<and> cmds ! 5 =
          G1F (np_clip (ls_length arcline / ArcSlowDownBelowThisDuration kw * 60)
             (ArcMinPrintSpeed kw) (ArcPrintSpeed kw))
      \<and> feedrates (drop 6 cmds) = []"
proof -
  define speed where "speed = np_clip (ls_length arcline / ArcSlowDownBelowThisDuration kw * 60)
             (ArcMinPrintSpeed kw) (ArcPrintSpeed kw)"
  define pb where "pb = move_toward_point (arcline ! 0) (arcline ! 1) (ExtendArcDist kw) (- 90)"
  define pe where "pe = move_toward_point (last arcline) (arcline ! (length arcline - 2))
                           (ExtendArcDist kw) 90"
  define head where "head =
     [retractGCode True kw,
      ArcComment (case arcidx of None \<Rightarrow> None | Some i \<Rightarrow> if i = 0 then None else Some i)
        (ls_length arcline),
      p2GCode pb 0 (Some (ArcTravelFeedRate kw)),
      p2GCode (arcline ! 0) (distance pb (arcline ! 0) * eSteps) None,
      retractGCode False kw,
      setFeedRateGCode speed]"
  from assms(1) have "0 < length arcline" by linarith
  then have upt: "[0..<length arcline] = 0 # [1..<length arcline]"
    by (simp add: upt_conv_Cons)
  have nl: "0 \<noteq> length arcline - 1" using assms(1) by linarith
  have first: "arc2GCode_loop kw eSteps arcidx arcline pb pe speed [0..<length arcline]
        ([], arcline ! 0)
      = arc2GCode_loop kw eSteps arcidx arcline pb pe speed [1..<length arcline]
          (head, arcline ! 0)"
    unfolding upt using nl by (simp add: Let_def head_def)
  have "0 \<notin> set [1..<length arcline]" by simp
  from arc2GCode_loop_tail [OF this, of kw eSteps arcidx arcline pb pe speed head "arcline ! 0"]
  obtain rest where r: "arc2GCode_loop kw eSteps arcidx arcline pb pe speed [1..<length arcline]
          (head, arcline ! 0) = head @ rest" and f: "feedrates rest = []" by blast
  have res: "arc2GCode arcline eSteps arcidx kw = Inr (head @ rest)"
    using assms first r
    by (simp add: arc2GCode_def Let_def pb_def pe_def speed_def)
  have fh: "feedrates head = [speed]"
    by (simp add: head_def retractGCode_def p2GCode_def setFeedRateGCode_def)
  have lh: "length head = 6" by (simp add: head_def)
  have n5: "(head @ rest) ! 5 = G1F speed"
    by (simp add: head_def setFeedRateGCode_def nth_append)
  have d6: "drop 6 (head @ rest) = rest" using lh by simp
  show ?thesis
    using res fh f n5 d6 unfolding speed_def [symmetric]
    by (intro exI [of _ "head @ rest"]) (simp add: feedrates_append)
qed

theorem arc_feedrate_witness:
  "2 \<le> length [(0, 0), (3 :: real, 0 :: real)]
   \<and> ArcSlowDownBelowThisDuration (sample_kwargs) \<noteq> 0
   \<and> (\<exists>cmds. arc2GCode [(0, 0), (3, 0)] 0.05 (Some 1) (sample_kwargs) = Inr cmds
        \<and> feedrates cmds = [60])"
  using arc_feedrate [of "[(0, 0), (3, 0)]" "sample_kwargs" "0.05" "Some 1"]
  by (auto simp: sample_kwargs_def source_kwargs_def np_clip_def distance_def sqrt9)

text \<open>Claim C6 as stated, without the factor 60, fails: an arc of length 3 mm gets the feed
  rate 60, while \<open>clip(3 / 3, 30, 90)\<close> is 30.\<close>

theorem arc_feedrate_counterexample:
  "\<exists>cmds. arc2GCode [(0, 0), (3, 0)] 0.05 (Some 1) (sample_kwargs) = Inr cmds
        \<and> feedrates cmds = [60]
        \<and> np_clip (ls_length [(0, 0), (3, 0)]
                   / ArcSlowDownBelowThisDuration (sample_kwargs))
            (ArcMinPrintSpeed (sample_kwargs))
            (ArcPrintSpeed (sample_kwargs)) = 30"
  by (simp add: arc2GCode_def sample_kwargs_def source_kwargs_def np_clip_def distance_def sqrt9 Let_def
        upt_rec [of 0] upt_rec [of 1] p2GCode_def retractGCode_def setFeedRateGCode_def)

section \<open>Properties of the arc planner\<close>
















lemma fill_loop_stopped:
  "fs_stopped st \<Longrightarrow> fill_loop G kw r_min r_max md poly n st = Inr st"
  by (cases n) simp_all

lemma fill_loop_add:
  "fill_loop G kw r_min r_max md poly (i + j) st =
     (case fill_loop G kw r_min r_max md poly i st of
        Inl e \<Rightarrow> Inl e | Inr s \<Rightarrow> fill_loop G kw r_min r_max md poly j s)"
proof (induction i arbitrary: st)
  case 0
  then show ?case by simp
next
  case (Suc i)
  then show ?case
    by (auto simp: fill_loop_stopped split: sum.splits)
qed





lemma fill_iteration_grows:
  assumes "sound_geometry G region" and "region (fs_filled_space st) \<subseteq> region poly"
    and "fill_iteration G kw r_min r_max md poly st = Inr st'"
  shows "region (fs_filled_space st) \<subseteq> region (fs_filled_space st')
       \<and> region (fs_filled_space st') \<subseteq> region poly"
proof -
  have i: "\<And>a b. region (intersection G a b) = region a \<inter> region b"
    and u: "\<And>a b. region (unary_union G a b) = region a \<union> region b"
    using assms(1) by (simp_all add: sound_geometry_def)
  from assms(3) consider (same) "fs_filled_space st' = fs_filled_space st"
    | (new) c where "fs_filled_space st' =
        intersection G poly (unary_union G (fs_filled_space st) (Polygon G c))"
    unfolding fill_iteration_def Let_def
    by (auto split: sum.splits option.splits if_splits)
  then show ?thesis
  proof cases
    case same
    with assms(2) show ?thesis by simp
  next
    case new
    with assms(2) show ?thesis by (auto simp: i u)
  qed
qed

lemma fill_loop_grows:
  assumes "sound_geometry G region"
  shows "region (fs_filled_space st) \<subseteq> region poly \<Longrightarrow>
     fill_loop G kw r_min r_max md poly n st = Inr st' \<Longrightarrow>
     region (fs_filled_space st) \<subseteq> region (fs_filled_space st')
       \<and> region (fs_filled_space st') \<subseteq> region poly"
proof (induction n arbitrary: st)
  case 0
  then show ?case by simp
next
  case (Suc n)
  show ?case
  proof (cases "fs_stopped st")
    case True
    with Suc.prems show ?thesis by simp
  next
    case False
    with Suc.prems(2) obtain st1 where
      it: "fill_iteration G kw r_min r_max md poly st = Inr st1"
      and rest: "fill_loop G kw r_min r_max md poly n st1 = Inr st'"
      by (auto split: sum.splits)
    from fill_iteration_grows [OF assms Suc.prems(1) it]
    have a: "region (fs_filled_space st) \<subseteq> region (fs_filled_space st1)"
      and b: "region (fs_filled_space st1) \<subseteq> region poly" by simp_all
    from Suc.IH [OF b rest] a show ?thesis by auto
  qed
qed

text \<open>Claim C4. When the initial \<open>filled_space\<close> lies in the polygon, the area of
  \<open>filled_space\<close> after \<open>i\<close> passes of the loop of \<open>fill_remaining_space\<close> is at most its area
  after \<open>j\<close> further passes (which is the state after \<open>i + j\<close> passes), and \<open>filled_space\<close>
  stays in the polygon.\<close>

theorem filled_space_area_monotone:
  assumes "sound_geometry G region" and "region filled_space \<subseteq> region poly"
    and "fill_loop G kw r_min r_max md poly i
           \<lparr>fs_last_arc = last_arc, fs_filled_space = filled_space, fs_arcs = [],
            fs_failureCount = 0, fs_stopped = False\<rparr> = Inr si"
    and "fill_loop G kw r_min r_max md poly j si = Inr sj"
  shows "area G (fs_filled_space si) \<le> area G (fs_filled_space sj)
       \<and> region (fs_filled_space sj) \<subseteq> region poly
       \<and> fill_loop G kw r_min r_max md poly (i + j)
           \<lparr>fs_last_arc = last_arc, fs_filled_space = filled_space, fs_arcs = [],
            fs_failureCount = 0, fs_stopped = False\<rparr> = Inr sj"
proof -
  from fill_loop_grows [OF assms(1) _ assms(3)] assms(2)
  have b: "region (fs_filled_space si) \<subseteq> region poly" by simp
  from fill_loop_grows [OF assms(1) b assms(4)]
  have g: "region (fs_filled_space si) \<subseteq> region (fs_filled_space sj)"
    and p: "region (fs_filled_space sj) \<subseteq> region poly" by simp_all
  from assms(1) g have "area G (fs_filled_space si) \<le> area G (fs_filled_space sj)"
    by (simp add: sound_geometry_def)
  moreover have "fill_loop G kw r_min r_max md poly (i + j)
           \<lparr>fs_last_arc = last_arc, fs_filled_space = filled_space, fs_arcs = [],
            fs_failureCount = 0, fs_stopped = False\<rparr> = Inr sj"
    using assms(3,4) by (simp add: fill_loop_add)
  ultimately show ?thesis using p by simp
qed


lemma cells_sound: "sound_geometry cells_geometry cells_region"
  unfolding sound_geometry_def
proof (intro conjI allI impI)
  fix a b :: "bool \<times> bool"
  show "cells_region (intersection cells_geometry a b) = cells_region a \<inter> cells_region b"
    by (cases a; cases b) (auto simp: cells_geometry_def cells_region_def)
  show "cells_region (unary_union cells_geometry a b) = cells_region a \<union> cells_region b"
    by (cases a; cases b) (auto simp: cells_geometry_def cells_region_def)
  assume s: "cells_region a \<subseteq> cells_region b"
  have 1: "fst a \<longrightarrow> fst b"
  proof
    assume "fst a"
    then have "(0, 0) \<in> cells_region a" by (simp add: cells_region_def)
    with s have "(0, 0) \<in> cells_region b" by blast
    then show "fst b" by (simp add: cells_region_def)
  qed
  have 2: "snd a \<longrightarrow> snd b"
  proof
    assume "snd a"
    then have "(1, 0) \<in> cells_region a" by (simp add: cells_region_def)
    with s have "(1, 0) \<in> cells_region b" by blast
    then show "snd b" by (simp add: cells_region_def)
  qed
  from 1 2 show "area cells_geometry a \<le> area cells_geometry b"
    by (cases a; cases b) (auto simp: cells_geometry_def)
qed

lemma np_arange_one: "np_arange 1 (69 / 50) (19 / 50) = [1]"
  by (simp add: np_arange_def)

theorem filled_space_area_monotone_witness:
  "sound_geometry cells_geometry cells_region
   \<and> cells_region (True, False) \<subseteq> cells_region (True, True)
   \<and> (\<exists>sj. fill_loop cells_geometry (source_kwargs 0.4 0.45 0.8 35) 1 1 0.45 (True, True) 1
             \<lparr>fs_last_arc = cells_arc (0, 0) 0.4 (True, True),
              fs_filled_space = (True, False), fs_arcs = [],
              fs_failureCount = 0, fs_stopped = False\<rparr> = Inr sj
        \<and> fs_filled_space sj = (True, True)
        \<and> area cells_geometry (True, False) \<le> area cells_geometry (fs_filled_space sj))"
proof -
  let ?kw = "source_kwargs 0.4 0.45 0.8 35"
  let ?st0 = "\<lparr>fs_last_arc = cells_arc (0, 0) 0.4 (True, True),
              fs_filled_space = (True, False), fs_arcs = [],
              fs_failureCount = 0, fs_stopped = False\<rparr>"
  have sub: "cells_region (True, False) \<subseteq> cells_region (True, True)"
    by (auto simp: cells_region_def)
  have z: "fill_loop cells_geometry ?kw 1 1 0.45 (True, True) 0 ?st0 = Inr ?st0" by simp
  have aw: "ArcWidth ?kw = 0.38" by (simp add: source_kwargs_def)
  have "\<exists>sj. fill_loop cells_geometry ?kw 1 1 0.45 (True, True) 1 ?st0 = Inr sj
      \<and> fs_filled_space sj = (True, True)"
    by (simp add: fill_iteration_def generateMultipleConcentricArcs_def aw np_arange_one
          cells_geometry_def generateConcentricArc_def move_toward_point_def hypot_def Let_def
          cells_arc_def
          source_kwargs_def)
  then obtain sj where sj: "fill_loop cells_geometry ?kw 1 1 0.45 (True, True) 1 ?st0 = Inr sj"
    and f: "fs_filled_space sj = (True, True)" by blast
  from filled_space_area_monotone [OF cells_sound sub z sj]
  have "area cells_geometry (True, False) \<le> area cells_geometry (fs_filled_space sj)"
    by simp
  with cells_sound sub sj f show ?thesis by blast
qed

section \<open>Properties of the start point\<close>

lemma distance_commute: "distance p q = distance q p"
  by (simp add: distance_def power2_commute)

lemma distance_nonneg: "0 \<le> distance p q"
  by (simp add: distance_def)

lemma ls_length_sum:
  "ls_length ls = (\<Sum>k = 1..<length ls. distance (ls ! k) (ls ! (k - 1)))"
proof (induction ls rule: ls_length.induct)
  case (1 p q ps)
  have "(\<Sum>k = 1..<length (p # q # ps). distance ((p # q # ps) ! k) ((p # q # ps) ! (k - 1)))
      = (\<Sum>k = 1..<Suc (length (q # ps)). distance ((p # q # ps) ! k) ((p # q # ps) ! (k - 1)))"
    by simp
  also have "\<dots> = distance q p
      + (\<Sum>k = 1..<length (q # ps). distance ((p # q # ps) ! Suc k) ((p # q # ps) ! (Suc k - 1)))"
    by (simp add: sum.atLeast_Suc_lessThan sum.shift_bounds_Suc_ivl del: sum.op_ivl_Suc)
  also have "(\<Sum>k = 1..<length (q # ps). distance ((p # q # ps) ! Suc k) ((p # q # ps) ! (Suc k - 1)))
      = (\<Sum>k = 1..<length (q # ps). distance ((q # ps) ! k) ((q # ps) ! (k - 1)))"
    by (intro sum.cong) auto
  finally show ?case using 1 by (simp add: distance_commute)
qed simp_all


lemma score_loop_upt:
  assumes "ls_length ls \<noteq> 0"
  shows "b \<le> length ls \<Longrightarrow> a \<le> b \<Longrightarrow>
     cur = (\<Sum>k = 1..a - 1. distance (ls ! k) (ls ! (k - 1))) \<Longrightarrow>
     fst (score_loop cim ls [a..<b] (scores, cur))
       = scores @ map (\<lambda>j. Some (vertex_scores cim ls j)) [a..<b]"
proof (induction "b - a" arbitrary: a scores cur)
  case 0
  then show ?case by simp
next
  case (Suc n)
  then have ab: "a < b" by simp
  then have upt: "[a..<b] = a # [Suc a..<b]" by (simp add: upt_conv_Cons)
  have n: "n = b - Suc a" using Suc.hyps(2) by simp
  show ?case
  proof (cases "a = 0 \<or> a = length ls - 1")
    case True
    then have step: "score_loop cim ls [a..<b] (scores, cur)
        = score_loop cim ls [Suc a..<b] (scores @ [Some 0], cur)"
      unfolding upt by simp
    show ?thesis
    proof (cases "a = 0")
      case a0: True
      have c: "cur = (\<Sum>k = 1..Suc a - 1. distance (ls ! k) (ls ! (k - 1)))"
        using Suc.prems(3) a0 by simp
      from Suc.hyps(1) [OF n Suc.prems(1) _ c, of "scores @ [Some 0]"] ab
      show ?thesis unfolding step upt using True by (simp add: vertex_scores_def)
    next
      case False
      with True have "a = length ls - 1" by simp
      with ab Suc.prems(1) have e: "[Suc a..<b] = []" by simp
      show ?thesis unfolding step upt e using True by (simp add: vertex_scores_def)
    qed
  next
    case False
    then have a1: "1 \<le> a" by simp
    define cur' where "cur' = cur + distance (ls ! a) (ls ! (a - 1))"
    have c: "cur' = (\<Sum>k = 1..Suc a - 1. distance (ls ! k) (ls ! (k - 1)))"
    proof -
      have "{1..a} = insert a {1..a - 1}" using a1 by auto
      then have "(\<Sum>k = 1..a. distance (ls ! k) (ls ! (k - 1)))
          = distance (ls ! a) (ls ! (a - 1)) + (\<Sum>k = 1..a - 1. distance (ls ! k) (ls ! (k - 1)))"
        using a1 by (simp add: sum.insert)
      then show ?thesis using Suc.prems(3) by (simp add: cur'_def)
    qed
    have sc: "Some (vertex_scores cim ls a)
        = (let v1 = vsub (ls ! a) (ls ! (a - 1)); v2 = vsub (ls ! (a + 1)) (ls ! a)
           in if vnorm v1 > 0 \<and> vnorm v2 > 0
              then map_option (\<lambda>x. x + \<bar>sin (arccos (np_clip
                       (vdot (vscale v1 (vnorm v1)) (vscale v2 (vnorm v2))) (- 1) 1))\<bar> * cim)
                     (map_option (\<lambda>x. 1 - \<bar>x - 0.5\<bar>) (fl_div cur' (ls_length ls)))
              else map_option (\<lambda>x. 1 - \<bar>x - 0.5\<bar>) (fl_div cur' (ls_length ls)))"
      using False assms c
      by (simp add: vertex_scores_def lengthscore_def anglescore_def fl_div_def Let_def)
    have step: "score_loop cim ls [a..<b] (scores, cur)
        = score_loop cim ls [Suc a..<b] (scores @ [Some (vertex_scores cim ls a)], cur')"
      unfolding upt sc using False by (simp add: Let_def cur'_def)
    from ab have ih: "fst (score_loop cim ls [Suc a..<b]
          (scores @ [Some (vertex_scores cim ls a)], cur'))
        = (scores @ [Some (vertex_scores cim ls a)])
            @ map (\<lambda>j. Some (vertex_scores cim ls j)) [Suc a..<b]"
      by (intro Suc.hyps(1) [OF n Suc.prems(1) _ c]) simp
    have "fst (score_loop cim ls [a..<b] (scores, cur))
        = fst (score_loop cim ls [Suc a..<b] (scores @ [Some (vertex_scores cim ls a)], cur'))"
      by (simp only: step)
    also note ih
    also have "(scores @ [Some (vertex_scores cim ls a)])
            @ map (\<lambda>j. Some (vertex_scores cim ls j)) [Suc a..<b]
        = scores @ map (\<lambda>j. Some (vertex_scores cim ls j)) [a..<b]"
      by (simp add: upt)
    finally show ?thesis .
  qed
qed

lemma py_max_from_Some:
  "py_max_from (Some m) (map Some ys) = Some (Max (insert m (set ys)))"
proof (induction ys arbitrary: m)
  case Nil
  then show ?case by simp
next
  case (Cons y ys)
  have "Max (insert (max y m) (set ys)) = Max (insert m (insert y (set ys)))"
    by (cases "set ys = {}") (simp_all add: max.commute max.left_commute)
  then show ?case using Cons [of "if y > m then y else m"]
    by (simp add: max_def split: if_splits)
qed

lemma list_index_found:
  "v \<in> set xs \<Longrightarrow> list_index xs v < length xs \<and> xs ! list_index xs v = v"
  unfolding list_index_def by (induction xs) auto

lemma interior_score_pos:
  assumes "0 < ls_length ls" and "0 \<le> cim" and "0 < j" and "j < length ls - 1"
  shows "1 / 2 \<le> vertex_scores cim ls j"
proof -
  let ?d = "\<lambda>k. distance (ls ! k) (ls ! (k - 1))"
  have sub: "{1..j} \<subseteq> {1..<length ls}" using assms(4) by auto
  have "(\<Sum>k = 1..j. ?d k) \<le> (\<Sum>k = 1..<length ls. ?d k)"
    by (intro sum_mono2 sub) (simp_all add: distance_nonneg)
  then have le: "(\<Sum>k = 1..j. ?d k) \<le> ls_length ls" by (simp add: ls_length_sum)
  have ge: "0 \<le> (\<Sum>k = 1..j. ?d k)" by (intro sum_nonneg) (simp add: distance_nonneg)
  from le ge assms(1) have "0 \<le> (\<Sum>k = 1..j. ?d k) / ls_length ls"
    and "(\<Sum>k = 1..j. ?d k) / ls_length ls \<le> 1" by simp_all
  then have "\<bar>(\<Sum>k = 1..j. ?d k) / ls_length ls - 0.5\<bar> \<le> 1 / 2"
    by (simp only: abs_le_iff) linarith
  then have "1 / 2 \<le> lengthscore ls j" unfolding lengthscore_def by linarith
  moreover have "0 \<le> anglescore cim ls j"
    using assms(2) by (simp add: anglescore_def Let_def)
  ultimately show ?thesis using assms(3,4) by (simp add: vertex_scores_def)
qed


text \<open>Claim C5, as amended. On a line string with exactly two vertices \<open>getStartPtOnLS\<close>
  returns their midpoint, whatever \<open>choseRandom\<close> is. On one with three or more vertices it
  returns, with \<open>choseRandom\<close>, the vertex that \<open>random.choice\<close> picks, which may be any
  vertex of the line; without \<open>choseRandom\<close>, on a line of positive length and with a
  non-negative \<open>CornerImportanceMultiplier\<close>, a vertex that is neither the first nor the
  last and whose sum of \<open>lengthscore\<close> and \<open>anglescore\<close> is the largest among the interior
  vertices.\<close>

theorem start_point_choice:
  "(length ls = 2 \<longrightarrow> getStartPtOnLS ls kw choseRandom pick = Inr (midpoint (ls ! 0) (ls ! 1)))
   \<and> (3 \<le> length ls \<longrightarrow>
        getStartPtOnLS ls kw True pick = Inr (ls ! (pick mod length ls))
        \<and> pick mod length ls < length ls)
   \<and> (3 \<le> length ls \<longrightarrow> 0 < ls_length ls \<longrightarrow> 0 \<le> CornerImportanceMultiplier kw \<longrightarrow>
        (\<exists>i. 0 < i \<and> i < length ls - 1
           \<and> getStartPtOnLS ls kw False pick = Inr (ls ! i)
           \<and> (\<forall>j. 0 < j \<and> j < length ls - 1 \<longrightarrow>
                 lengthscore ls j + anglescore (CornerImportanceMultiplier kw) ls j
                   \<le> lengthscore ls i + anglescore (CornerImportanceMultiplier kw) ls i)))"
proof (intro conjI impI)
  assume "length ls = 2"
  then show "getStartPtOnLS ls kw choseRandom pick = Inr (midpoint (ls ! 0) (ls ! 1))"
    by (simp add: getStartPtOnLS_def)
next
  assume "3 \<le> length ls"
  then show "getStartPtOnLS ls kw True pick = Inr (ls ! (pick mod length ls))"
    by (simp add: getStartPtOnLS_def)
next
  assume "3 \<le> length ls"
  then have "0 < length ls" by linarith
  then show "pick mod length ls < length ls" by (rule mod_less_divisor)
next
  define cim where "cim = CornerImportanceMultiplier kw"
  assume n3: "3 \<le> length ls" and pos: "0 < ls_length ls"
    and "0 \<le> CornerImportanceMultiplier kw"
  then have cim: "0 \<le> cim" by (simp add: cim_def)
  define ys where "ys = map (vertex_scores cim ls) [0..<length ls]"
  define scores where "scores = fst (score_loop cim ls [0..<length ls] ([], 0))"
  have sc: "scores = map Some ys"
    using score_loop_upt [of ls "length ls" 0 0 cim "[]"] pos
    by (simp add: scores_def ys_def comp_def)
  have len: "length ys = length ls" by (simp add: ys_def)
  have ynth: "\<And>j. j < length ls \<Longrightarrow> ys ! j = vertex_scores cim ls j"
    by (simp add: ys_def)
  from n3 have lne: "ls \<noteq> []" and l0: "0 < length ls" and l1: "1 < length ls"
    and ll: "length ls - 1 < length ls" by auto
  from n3 have ne: "ys \<noteq> []" using len by auto
  then obtain y0 yt where yc: "ys = y0 # yt" by (cases ys) auto
  define m where "m = Max (set ys)"
  have mx: "py_max_from (hd scores) (tl scores) = Some m"
    using py_max_from_Some [of y0 yt] by (simp add: sc yc m_def)
  have min: "m \<in> set ys" unfolding m_def using ne by (intro Max_in) simp_all
  then have "Some m \<in> set scores" by (simp add: sc)
  from list_index_found [OF this]
  have il: "list_index scores (Some m) < length ls"
    and iv: "scores ! list_index scores (Some m) = Some m"
    using len by (simp_all add: sc)
  define i where "i = list_index scores (Some m)"
  have yi: "ys ! i = m" using iv il len by (simp add: sc i_def)
  have ub: "\<And>j. j < length ls \<Longrightarrow> ys ! j \<le> m"
    unfolding m_def using len by (intro Max_ge) simp_all
  have one: "1 / 2 \<le> ys ! 1"
    using interior_score_pos [OF pos cim, of 1] n3 ynth [OF l1] by simp
  with ub [OF l1] have mpos: "0 < m" by simp
  have i0: "i \<noteq> 0"
  proof
    assume "i = 0"
    with yi ynth [OF l0] have "m = 0" by (simp add: vertex_scores_def)
    with mpos show False by simp
  qed
  have il': "i < length ls" using il by (simp add: i_def)
  have iN: "i \<noteq> length ls - 1"
  proof
    assume "i = length ls - 1"
    with yi ynth [OF ll] have "m = 0" by (simp add: vertex_scores_def)
    with mpos show False by simp
  qed
  from i0 iN il' have ii: "0 < i" "i < length ls - 1" by simp_all
  have res: "getStartPtOnLS ls kw False pick = Inr (ls ! i)"
    using n3
    by (simp add: getStartPtOnLS_def Let_def cim_def [symmetric] scores_def [symmetric] mx i_def)
  have best: "\<forall>j. 0 < j \<and> j < length ls - 1 \<longrightarrow>
      lengthscore ls j + anglescore cim ls j \<le> lengthscore ls i + anglescore cim ls i"
  proof (intro allI impI)
    fix j assume j: "0 < j \<and> j < length ls - 1"
    then have jl: "j < length ls" by linarith
    then have "ys ! j \<le> m" by (rule ub)
    with yi have "ys ! j \<le> ys ! i" by simp
    with j ii il' jl show "lengthscore ls j + anglescore cim ls j
        \<le> lengthscore ls i + anglescore cim ls i"
      by (simp add: ynth vertex_scores_def)
  qed
  from ii res best
  show "\<exists>i. 0 < i \<and> i < length ls - 1
           \<and> getStartPtOnLS ls kw False pick = Inr (ls ! i)
           \<and> (\<forall>j. 0 < j \<and> j < length ls - 1 \<longrightarrow>
                 lengthscore ls j + anglescore (CornerImportanceMultiplier kw) ls j
                   \<le> lengthscore ls i + anglescore (CornerImportanceMultiplier kw) ls i)"
    unfolding cim_def by blast
qed


text \<open>Claim C5 as stated fails on the fallback path of \<open>main\<close>, which calls the function
  with \<open>choseRandom\<close>: on a straight line of three distinct vertices the random choice can
  return the first one. The bound on the multiplier is needed as well: with a negative one
  the corner of \<open>corner_line\<close> scores below the two ends, and the first vertex is
  returned.\<close>

theorem start_point_choice_counterexample:
  "getStartPtOnLS [(0, 0), (3, 0), (6, 0)] sample_kwargs True 0 = Inr (0, 0)
   \<and> [(0, 0), (3, 0), (6 :: real, 0 :: real)] ! 0 = (0, 0)
   \<and> [(0, 0), (3, 0), (6 :: real, 0 :: real)] ! 1 \<noteq> (0, 0)
   \<and> getStartPtOnLS corner_line (sample_kwargs\<lparr>CornerImportanceMultiplier := - 10\<rparr>) False 0
       = Inr (0, 0)
   \<and> corner_line ! 1 \<noteq> (0, 0)"
proof -
  have "getStartPtOnLS corner_line (sample_kwargs\<lparr>CornerImportanceMultiplier := - 10\<rparr>) False 0
       = Inr (0, 0)"
    by (simp add: getStartPtOnLS_def corner_line_def Let_def upt_rec [of 0] upt_rec [of 1]
        upt_rec [of 2] distance_def fl_div_def vsub_def vnorm_def vdot_def vscale_def
        np_clip_def list_index_def)
  then show ?thesis by (simp add: getStartPtOnLS_def corner_line_def)
qed

lemma sqrt25: "sqrt 25 = 5"
  using real_sqrt_abs [of 5] by simp

lemma bent_line_length: "ls_length bent_line = 8"
  by (simp add: bent_line_def distance_def sqrt25)

lemma bent_line_scores:
  "lengthscore bent_line 1 + anglescore (1 / 5) bent_line 1 = 7 / 8"
  "lengthscore bent_line 2 + anglescore (1 / 5) bent_line 2 = 19 / 20"
proof -
  have s: "{1..2::nat} = {1, 2}" by auto
  show "lengthscore bent_line 1 + anglescore (1 / 5) bent_line 1 = 7 / 8"
    unfolding lengthscore_def bent_line_length
    by (simp add: bent_line_def anglescore_def distance_def sqrt25 vsub_def vnorm_def
        vdot_def vscale_def np_clip_def Let_def)
  show "lengthscore bent_line 2 + anglescore (1 / 5) bent_line 2 = 19 / 20"
    unfolding lengthscore_def bent_line_length s
    by (simp add: bent_line_def anglescore_def distance_def sqrt25 vsub_def vnorm_def
        vdot_def vscale_def np_clip_def Let_def)
qed

theorem start_point_choice_witness:
  "length [(0, 0), (4 :: real, 2 :: real)] = 2
   \<and> getStartPtOnLS [(0, 0), (4, 2)] sample_kwargs False 0 = Inr (2, 1)
   \<and> 3 \<le> length bent_line
   \<and> 0 < ls_length bent_line
   \<and> 0 \<le> CornerImportanceMultiplier sample_kwargs
   \<and> lengthscore bent_line 1 + anglescore (CornerImportanceMultiplier sample_kwargs) bent_line 1
       = 7 / 8
   \<and> lengthscore bent_line 2 + anglescore (CornerImportanceMultiplier sample_kwargs) bent_line 2
       = 19 / 20
   \<and> getStartPtOnLS bent_line sample_kwargs False 0 = Inr (6, 0)
   \<and> getStartPtOnLS bent_line sample_kwargs True 7 = Inr (6, 2)"
proof -
  have a: "getStartPtOnLS [(0, 0), (4, 2)] sample_kwargs False 0 = Inr (2, 1)"
    using start_point_choice [of "[(0, 0), (4, 2)]" sample_kwargs False 0]
    by (simp add: midpoint_def)
  have n: "length bent_line = 4" by (simp add: bent_line_def)
  have l: "0 < ls_length bent_line" by (simp add: bent_line_length)
  have c: "CornerImportanceMultiplier sample_kwargs = 1 / 5"
    by (simp add: sample_kwargs_def source_kwargs_def)
  note t = start_point_choice [of bent_line sample_kwargs False 7]
  from t n have d: "getStartPtOnLS bent_line sample_kwargs True 7 = Inr (6, 2)"
    by (simp add: bent_line_def)
  from start_point_choice [of bent_line sample_kwargs False 0] n l c
  obtain i where i: "0 < i" "i < 3"
    and r: "getStartPtOnLS bent_line sample_kwargs False 0 = Inr (bent_line ! i)"
    and best: "\<forall>j. 0 < j \<and> j < 3 \<longrightarrow>
        lengthscore bent_line j + anglescore (1 / 5) bent_line j
          \<le> lengthscore bent_line i + anglescore (1 / 5) bent_line i"
    by auto
  from i have "i = 1 \<or> i = 2" by auto
  moreover have "i \<noteq> 1"
  proof
    assume "i = 1"
    with best have "lengthscore bent_line 2 + anglescore (1 / 5) bent_line 2
        \<le> lengthscore bent_line 1 + anglescore (1 / 5) bent_line 1" by simp
    then show False unfolding bent_line_scores by simp
  qed
  ultimately have "i = 2" by simp
  with r have b: "getStartPtOnLS bent_line sample_kwargs False 0 = Inr (6, 0)"
    by (simp add: bent_line_def)
  from a b d n l show ?thesis unfolding c bent_line_scores by simp
qed

end
